theory Spec2Isabelle
  imports Main "HOL-Library.Word"
begin

unbundle bit_operations_syntax

section \<open>Bytes, Python sequences and \<open>struct\<close>\<close>

text \<open>
  The drivers handle \<open>bytes\<close> and \<open>bytearray\<close> objects. An element of either is an
  integer in \<open>0..255\<close>, modelled as an 8-bit word; where the source does integer
  arithmetic on an element (\<open>data[i + 1] - 4\<close>) the element is read with \<open>uint\<close> and the
  arithmetic is done on \<open>int\<close>, as Python's unbounded integers do it.
\<close>

type_synonym byte = "8 word"

datatype error = StructError | ValueError | KeyError | IndexError | USBError

text \<open>
  A 32-bit IEEE-754 number is represented by its bit pattern: \<open>struct.unpack\<close> with
  format \<open>f\<close> reads four bytes and returns the number they encode, and nothing
  in the drivers computes with it afterwards.
\<close>

datatype float32 = Float32 (bits: "32 word")

definition be32 :: "byte \<Rightarrow> byte \<Rightarrow> byte \<Rightarrow> byte \<Rightarrow> 32 word" where
  "be32 b0 b1 b2 b3 =
     push_bit 24 (ucast b0) OR push_bit 16 (ucast b1) OR push_bit 8 (ucast b2) OR ucast b3"

text \<open>
  \<open>struct.unpack(">BBBI", buf)\<close>: three unsigned bytes and one big-endian unsigned
  32-bit integer. \<open>struct.unpack\<close> raises \<open>struct.error\<close> unless the buffer has
  exactly the size of the format, here 7 bytes.
\<close>

definition unpack_BBBI :: "byte list \<Rightarrow> error + (byte \<times> byte \<times> byte \<times> 32 word)" where
  "unpack_BBBI buf =
     (if length buf = 7
      then Inr (buf ! 0, buf ! 1, buf ! 2, be32 (buf ! 3) (buf ! 4) (buf ! 5) (buf ! 6))
      else Inl StructError)"

section \<open>The configuration dictionary\<close>

text \<open>
  \<open>basic_configuration\<close> of \<open>VMU931Driver\<close> is a dictionary with twelve fixed keys.
  The three enable flags and \<open>low_output_rate\<close> are \<open>None\<close> there and booleans after
  a status message is parsed; the two resolutions are integers there and may be
  \<open>None\<close> after parsing; the six streaming flags are always booleans.
\<close>

record configuration =
  magnetometer_enabled :: "bool option"
  gyroscope_enabled :: "bool option"
  accelerometer_enabled :: "bool option"
  gyroscope_resolution :: "int option"
  accelerometer_resolution :: "int option"
  low_output_rate :: "bool option"
  heading_streaming :: bool
  euler_streaming :: bool
  magnetometer_streaming :: bool
  quaternion_streaming :: bool
  gyroscope_streaming :: bool
  accelerometer_streaming :: bool

definition basic_configuration :: configuration where
  "basic_configuration =
     \<lparr> magnetometer_enabled = None,
       gyroscope_enabled = None,
       accelerometer_enabled = None,
       gyroscope_resolution = Some 2000,
       accelerometer_resolution = Some 2,
       low_output_rate = None,
       heading_streaming = False,
       euler_streaming = False,
       magnetometer_streaming = False,
       quaternion_streaming = False,
       gyroscope_streaming = True,
       accelerometer_streaming = False \<rparr>"

section \<open>Parsing a status message\<close>

text \<open>
  \<open>VMU931Driver._parse_status_message\<close>. The masks are the source's binary literals
  (\<open>0b000000100\<close>, written with nine digits in the source, is 4).
\<close>

definition parse_status_message :: "byte list \<Rightarrow> error + configuration" where
  "parse_status_message message =
     (case unpack_BBBI (take 7 message) of
        Inl e \<Rightarrow> Inl e
      | Inr (status, res, low_output, data) \<Rightarrow>
          let mag_status = (status AND 4 \<noteq> 0);
              gyro_status = (status AND 2 \<noteq> 0);
              acc_status = (status AND 1 \<noteq> 0);
              gyro_res =
                (if res AND 128 \<noteq> 0 then Some 2000
                 else if res AND 64 \<noteq> 0 then Some 1000
                 else if res AND 32 \<noteq> 0 then Some 500
                 else if res AND 16 \<noteq> 0 then Some 250
                 else None);
              acc_res =
                (if res AND 8 \<noteq> 0 then Some 16
                 else if res AND 4 \<noteq> 0 then Some 8
                 else if res AND 2 \<noteq> 0 then Some 4
                 else if res AND 1 \<noteq> 0 then Some 2
                 else None);
              low_output_rate = (low_output AND 1 \<noteq> 0);
              heading_streaming = (data AND 64 \<noteq> 0);
              euler_streaming = (data AND 16 \<noteq> 0);
              mag_streaming = (data AND 8 \<noteq> 0);
              quat_streaming = (data AND 4 \<noteq> 0);
              gyro_streaming = (data AND 2 \<noteq> 0);
              acc_streaming = (data AND 1 \<noteq> 0)
          in Inr (basic_configuration
                   \<lparr> magnetometer_enabled := Some mag_status,
                     gyroscope_enabled := Some gyro_status,
                     accelerometer_enabled := Some acc_status,
                     gyroscope_resolution := gyro_res,
                     accelerometer_resolution := acc_res,
                     low_output_rate := Some low_output_rate,
                     heading_streaming := heading_streaming,
                     euler_streaming := euler_streaming,
                     magnetometer_streaming := mag_streaming,
                     quaternion_streaming := quat_streaming,
                     gyroscope_streaming := gyro_streaming,
                     accelerometer_streaming := acc_streaming \<rparr>))"

section \<open>Decoding a motion message\<close>

text \<open>
  \<open>struct.unpack(">Ifff", buf)\<close>: a big-endian unsigned 32-bit integer followed by
  three big-endian 32-bit floats. It raises \<open>struct.error\<close> unless the buffer has
  exactly 16 bytes.
\<close>

definition unpack_Ifff :: "byte list \<Rightarrow> error + (32 word \<times> float32 \<times> float32 \<times> float32)" where
  "unpack_Ifff buf =
     (if length buf = 16
      then Inr (be32 (buf ! 0) (buf ! 1) (buf ! 2) (buf ! 3),
                Float32 (be32 (buf ! 4) (buf ! 5) (buf ! 6) (buf ! 7)),
                Float32 (be32 (buf ! 8) (buf ! 9) (buf ! 10) (buf ! 11)),
                Float32 (be32 (buf ! 12) (buf ! 13) (buf ! 14) (buf ! 15)))
      else Inl StructError)"

text \<open>
  The expression \<open>struct.unpack(">Ifff", message[:16])\<close> of \<open>VMU931Driver.get_message\<close>
  and of \<open>VMU931CDCDriver.get_vmu_packet\<close>, which returns the tuple \<open>(ts, x, y, z)\<close>.
\<close>

definition unpack_motion :: "byte list \<Rightarrow> error + (32 word \<times> float32 \<times> float32 \<times> float32)" where
  "unpack_motion message = unpack_Ifff (take 16 message)"

section \<open>Sending commands and setting the configuration\<close>

text \<open>
  The serial port is modelled by the list of the messages written to it so far;
  \<open>port.write\<close> appends one. A statement that sends returns the exception it raised,
  if any, and the port as it left it: what was written before an exception stays
  written.
\<close>

type_synonym port = "string list"

text \<open>
  \<open>'var{}'.format(code)\<close> writes the integer \<open>code\<close> in decimal.
\<close>

definition digit_char :: "nat \<Rightarrow> char" where
  "digit_char d = ''0123456789'' ! d"

fun str_nat :: "nat \<Rightarrow> string" where
  "str_nat n = (if n < 10 then [digit_char n] else str_nat (n div 10) @ [digit_char (n mod 10)])"

declare str_nat.simps [simp del]

definition str_int :: "int \<Rightarrow> string" where
  "str_int n = (if n < 0 then CHR ''-'' # str_nat (nat (- n)) else str_nat (nat n))"

text \<open>The class dictionaries, from a resolution to the digit of its command.\<close>

definition gyro_resolutions :: "int \<rightharpoonup> int" where
  "gyro_resolutions = [250 \<mapsto> 0, 500 \<mapsto> 1, 1000 \<mapsto> 2, 2000 \<mapsto> 3]"

definition accelerometer_resolutions :: "int \<rightharpoonup> int" where
  "accelerometer_resolutions = [2 \<mapsto> 4, 4 \<mapsto> 5, 8 \<mapsto> 6, 16 \<mapsto> 7]"

text \<open>
  \<open>send_message\<close> raises \<open>ValueError\<close> on an empty message and writes the message
  otherwise. \<open>set_gyro_resolution\<close> and \<open>set_accelerometer_resolution\<close> raise
  \<open>ValueError\<close> when the resolution is not a key of their dictionary (\<open>None\<close> is not).
\<close>

definition send_message :: "string \<Rightarrow> port \<Rightarrow> error option \<times> port" where
  "send_message message port =
     (if length message = 0 then (Some ValueError, port) else (None, port @ [message]))"

definition set_gyro_resolution :: "int option \<Rightarrow> port \<Rightarrow> error option \<times> port" where
  "set_gyro_resolution resolution port =
     (case resolution of
        None \<Rightarrow> (Some ValueError, port)
      | Some r \<Rightarrow>
          (case gyro_resolutions r of
             None \<Rightarrow> (Some ValueError, port)
           | Some code \<Rightarrow> send_message (''var'' @ str_int code) port))"

definition set_accelerometer_resolution :: "int option \<Rightarrow> port \<Rightarrow> error option \<times> port" where
  "set_accelerometer_resolution resolution port =
     (case resolution of
        None \<Rightarrow> (Some ValueError, port)
      | Some r \<Rightarrow>
          (case accelerometer_resolutions r of
             None \<Rightarrow> (Some ValueError, port)
           | Some code \<Rightarrow> send_message (''var'' @ str_int code) port))"

text \<open>
  Statements run in order, and the first exception ends the run; \<open>when_true\<close> is an
  \<open>if\<close> without \<open>else\<close>.
\<close>

fun in_order :: "(port \<Rightarrow> error option \<times> port) list \<Rightarrow> port \<Rightarrow> error option \<times> port" where
  "in_order [] port = (None, port)"
| "in_order (stmt # stmts) port =
     (case stmt port of
        (Some e, port') \<Rightarrow> (Some e, port')
      | (None, port') \<Rightarrow> in_order stmts port')"

definition when_true :: "bool \<Rightarrow> (port \<Rightarrow> error option \<times> port) \<Rightarrow> port \<Rightarrow> error option \<times> port" where
  "when_true b stmt port = (if b then stmt port else (None, port))"

text \<open>
  \<open>VMU931Driver.set_configuration\<close>. Python's \<open>^\<close> on two booleans is exclusive or,
  that is, inequality.
\<close>

definition set_configuration ::
  "configuration option \<Rightarrow> configuration option \<Rightarrow> port \<Rightarrow> error option \<times> port" where
  "set_configuration current_configuration new_configuration port =
     (case (current_configuration, new_configuration) of
        (Some cur, Some new) \<Rightarrow>
          in_order
            [set_gyro_resolution (gyroscope_resolution new),
             set_accelerometer_resolution (accelerometer_resolution new),
             when_true (accelerometer_streaming cur \<noteq> accelerometer_streaming new)
               (send_message ''vara''),
             when_true (gyroscope_streaming cur \<noteq> gyroscope_streaming new)
               (send_message ''varg''),
             when_true (magnetometer_streaming cur \<noteq> magnetometer_streaming new)
               (send_message ''varc''),
             when_true (quaternion_streaming cur \<noteq> quaternion_streaming new)
               (send_message ''varq''),
             when_true (euler_streaming cur \<noteq> euler_streaming new)
               (send_message ''vare''),
             when_true (heading_streaming cur \<noteq> heading_streaming new)
               (send_message ''varh'')]
            port
      | _ \<Rightarrow> (Some ValueError, port))"

section \<open>Scanning the USB stream for a packet\<close>

text \<open>
  Python indexing and slicing of a sequence by integers that may be negative or out
  of range. \<open>xs[k]\<close> counts a negative \<open>k\<close> from the end and raises \<open>IndexError\<close>
  (here \<open>None\<close>) out of range; a slice clamps its bounds instead of raising.
\<close>

definition py_index :: "'a list \<Rightarrow> int \<Rightarrow> 'a option" where
  "py_index xs k =
     (let j = (if k < 0 then k + int (length xs) else k)
      in if 0 \<le> j \<and> j < int (length xs) then Some (xs ! nat j) else None)"

definition py_bound :: "nat \<Rightarrow> int \<Rightarrow> nat" where
  "py_bound n k = (if k < 0 then nat (max 0 (k + int n)) else min n (nat k))"

definition py_slice :: "'a list \<Rightarrow> int \<Rightarrow> int \<Rightarrow> 'a list" where
  "py_slice xs lo hi =
     take (py_bound (length xs) hi - py_bound (length xs) lo) (drop (py_bound (length xs) lo) xs)"

definition py_slice_from :: "'a list \<Rightarrow> int \<Rightarrow> 'a list" where
  "py_slice_from xs lo = drop (py_bound (length xs) lo) xs"

text \<open>
  \<open>chr\<close> of a byte is the one-character string of that code point, and
  \<open>message_types\<close> is the class dictionary of \<open>VMU931CDCDriver\<close>. The source compares
  with \<open>is\<close>: \<open>c is 0x01\<close>, \<open>message_end is 0x04\<close> and
  \<open>message_type is message_types[m_type]\<close>. The integers here are elements of a
  \<open>bytearray\<close> and literals below 257, of which the interpreter keeps one object
  per value, so that \<open>is\<close> on them is equality, and it is modelled as equality.

  On strings \<open>is\<close> is not equality. Two identical objects are equal, but whether
  the one-character string that \<open>chr\<close> returns is the very object that the dictionary
  holds for an equal literal is up to the interpreter. The model takes this as a
  parameter \<open>shared\<close>: \<open>shared s\<close> says that for the string \<open>s\<close> the two are one object.
  On CPython 3.11.10 and 3.12.3 the test is true for \<open>'g'\<close> and false for \<open>'e'\<close>, \<open>'c'\<close>
  and \<open>'a'\<close>, so that the parameter is \<open>\<lambda>s. s = ''g''\<close> there; an interpreter that keeps one
  object for every one-character string has \<open>\<lambda>s. True\<close>.
\<close>

definition chr :: "byte \<Rightarrow> string" where
  "chr b = [char_of (unat b)]"

definition message_types :: "string \<rightharpoonup> string" where
  "message_types = [''gyro'' \<mapsto> ''g'', ''euler'' \<mapsto> ''e'', ''magnet'' \<mapsto> ''c'', ''accel'' \<mapsto> ''a'']"

definition is_str :: "(string \<Rightarrow> bool) \<Rightarrow> string \<Rightarrow> string \<Rightarrow> bool" where
  "is_str shared x y = (x = y \<and> shared x)"

text \<open>
  The body of the loop \<open>for i, c in enumerate(data)\<close> of \<open>get_vmu_packet\<close>, at index \<open>i\<close>
  with element \<open>c\<close> and the buffer \<open>data\<close> as it is bound at that moment. Its outcomes:
  \<^item> \<open>Skip\<close>: \<open>c\<close> is not a start marker, or at most 20 bytes are left from \<open>i\<close> on;
  \<^item> \<open>Reset\<close>: an index of the \<open>try\<close> block was out of range, the handler empties
    the buffer and breaks out of the \<open>for\<close> loop;
  \<^item> \<open>Drop data'\<close>: the \<open>else\<close> branch, which rebinds \<open>data\<close> to the slice
    \<open>data[i + 3 + message_size:]\<close>;
  \<^item> \<open>Return\<close>: the unpacked tuple is returned;
  \<^item> \<open>Raise\<close>: an exception leaves the function (\<open>KeyError\<close> from
    \<open>message_types[m_type]\<close>, \<open>struct.error\<close> from \<open>struct.unpack\<close>; both are outside the
    \<open>try\<close> block).
  The test \<open>message_end is None\<close> of the \<open>else\<close> branch is never true: the branch is
  reached only after \<open>message_end\<close> was assigned a byte in the \<open>try\<close> block. The
  dictionary is looked up only when the terminator is \<open>0x04\<close>, since \<open>and\<close> evaluates
  its right operand only then.
\<close>

type_synonym sample = "32 word \<times> float32 \<times> float32 \<times> float32"

datatype step = Skip | Reset | Drop "byte list" | Return sample | Raise error

definition scan_step ::
  "(string \<Rightarrow> bool) \<Rightarrow> string \<Rightarrow> nat \<Rightarrow> byte \<Rightarrow> byte list \<Rightarrow> step" where
  "scan_step shared m_type i c data =
     (if c = 1 \<and> length (py_slice_from data (int i)) > 20 then
        (case py_index data (int i + 1) of
           None \<Rightarrow> Reset
         | Some b1 \<Rightarrow>
        (case py_index data (int i + 2) of
           None \<Rightarrow> Reset
         | Some b2 \<Rightarrow>
             let message_size = uint b1 - 4;
                 message_type = chr b2;
                 message = py_slice data (int i + 3) (int i + 3 + message_size)
             in (case py_index data (int i + 3 + message_size) of
                   None \<Rightarrow> Reset
                 | Some message_end \<Rightarrow>
                     if message_end = 4 then
                       (case message_types m_type of
                          None \<Rightarrow> Raise KeyError
                        | Some wanted \<Rightarrow>
                            if is_str shared message_type wanted then
                              (case unpack_motion message of
                                 Inl e \<Rightarrow> Raise e
                               | Inr tsxyz \<Rightarrow> Return tsxyz)
                            else Drop (py_slice_from data (int i + 3 + message_size)))
                     else Drop (py_slice_from data (int i + 3 + message_size)))))
      else Skip)"

text \<open>
  The \<open>for\<close> loop. \<open>enumerate(data)\<close> is created once and walks the object that
  \<open>data\<close> named when the loop started; rebinding \<open>data\<close> in the body does not change
  what the loop walks. So the elements \<open>c\<close> come from the original buffer (the third
  argument, what is left of it), while the length test, the indexing and the slicing
  of the body use the current binding (the fourth argument). The loop ends with
  \<open>Continue data\<close> when it runs out of elements or breaks, and the \<open>while\<close> loop goes on
  with that buffer.
\<close>

datatype scan_result = Continue "byte list" | Returned sample | Raised error

fun scan_loop ::
  "(string \<Rightarrow> bool) \<Rightarrow> string \<Rightarrow> nat \<Rightarrow> byte list \<Rightarrow> byte list \<Rightarrow> scan_result" where
  "scan_loop shared m_type i [] data = Continue data"
| "scan_loop shared m_type i (c # cs) data =
     (case scan_step shared m_type i c data of
        Skip \<Rightarrow> scan_loop shared m_type (Suc i) cs data
      | Drop data' \<Rightarrow> scan_loop shared m_type (Suc i) cs data'
      | Reset \<Rightarrow> Continue []
      | Return tsxyz \<Rightarrow> Returned tsxyz
      | Raise e \<Rightarrow> Raised e)"

text \<open>One pass: the \<open>for\<close> loop started on a buffer.\<close>

definition scan_buffer :: "(string \<Rightarrow> bool) \<Rightarrow> string \<Rightarrow> byte list \<Rightarrow> scan_result" where
  "scan_buffer shared m_type data = scan_loop shared m_type 0 data data"

text \<open>
  The \<open>while True\<close> loop of \<open>get_vmu_packet\<close>. The transport is a function from the
  number of reads made before to the result of the next \<open>self.reader.read(64)\<close>: the
  bytes read, or an exception of the USB layer. The loop variable \<open>iter_count\<close> is
  passed with the value it has before \<open>iter_count += 1\<close>, which is the number of reads
  made so far. The result is what the call returns (\<open>NoPacket\<close> is \<open>None\<close>) together
  with the number of reads it made.
\<close>

datatype read_result = ReadBytes "byte list" | ReadError

datatype outcome = Packet sample | NoPacket | Failed error

function vmu_loop ::
  "(string \<Rightarrow> bool) \<Rightarrow> (nat \<Rightarrow> read_result) \<Rightarrow> string \<Rightarrow> nat \<Rightarrow> byte list
     \<Rightarrow> outcome \<times> nat" where
  "vmu_loop shared reader m_type iter_count data =
     (if iter_count + 1 > 5000 then (NoPacket, iter_count)
      else (case reader iter_count of
              ReadError \<Rightarrow> (Failed USBError, iter_count + 1)
            | ReadBytes chunk \<Rightarrow>
                (case scan_buffer shared m_type (data @ chunk) of
                   Continue data' \<Rightarrow> vmu_loop shared reader m_type (iter_count + 1) data'
                 | Returned tsxyz \<Rightarrow> (Packet tsxyz, iter_count + 1)
                 | Raised e \<Rightarrow> (Failed e, iter_count + 1))))"
  by pat_completeness auto
termination
  by (relation "measure (\<lambda>(shared, reader, m_type, iter_count, data). 5000 - iter_count)") auto

declare vmu_loop.simps [simp del]

text \<open>\<open>get_vmu_packet\<close> returns \<open>None\<close> at once when no device was found.\<close>

definition get_vmu_packet ::
  "(string \<Rightarrow> bool) \<Rightarrow> 'dev option \<Rightarrow> (nat \<Rightarrow> read_result) \<Rightarrow> string \<Rightarrow> outcome \<times> nat" where
  "get_vmu_packet shared device reader m_type =
     (case device of
        None \<Rightarrow> (NoPacket, 0)
      | Some dev \<Rightarrow> vmu_loop shared reader m_type 0 [])"

section \<open>Reading a message from the serial port\<close>

text \<open>
  The serial line is a function from read slots to bytes: slot \<open>n\<close> holds the byte
  that the \<open>n\<close>-th one-byte read receives, or \<open>None\<close> when that read times out and
  returns no byte. \<open>port.read()[0]\<close> raises \<open>IndexError\<close> on a read that timed out.
  \<open>port.read(size)\<close> collects bytes until it has \<open>size\<close> of them or a read times out,
  and returns what it has; a \<open>size\<close> below 1 gives no bytes. \<open>get_message\<close> opens the
  port anew for each frame it tries; the line is taken to go on where the last read
  left it.
\<close>

type_synonym serial = "nat \<Rightarrow> byte option"

fun read_n :: "serial \<Rightarrow> nat \<Rightarrow> nat \<Rightarrow> byte list \<times> nat" where
  "read_n stream p 0 = ([], p)"
| "read_n stream p (Suc n) =
     (case stream p of
        None \<Rightarrow> ([], p + 1)
      | Some b \<Rightarrow> (case read_n stream (p + 1) n of (bs, p') \<Rightarrow> (b # bs, p')))"

text \<open>
  The loop \<open>while port.read()[0] is not 0x01: continue\<close>, from slot \<open>p\<close> on. It has no
  bound, so it is a partial function: the value \<open>None\<close> means that the loop does not
  end; \<open>Some (Inr p')\<close> that the marker was read and the next slot is \<open>p'\<close>.
\<close>

partial_function (option) wait_for_start :: "serial \<Rightarrow> nat \<Rightarrow> (error + nat) option" where
  "wait_for_start stream p =
     (case stream p of
        None \<Rightarrow> Some (Inl IndexError)
      | Some b \<Rightarrow> if b \<noteq> 1 then wait_for_start stream (p + 1) else Some (Inr (p + 1)))"

text \<open>
  The loop \<open>while not message_captured\<close> of \<open>VMU931Driver.get_message\<close>. It has no
  bound either: both \<open>continue\<close> statements start it again. The value \<open>None\<close> means
  that the call does not return. The test \<open>message_type is not message_types[m_type]\<close>
  is the negation of the identity test on strings, with the parameter \<open>shared\<close> as
  in the scanner.
\<close>

partial_function (option) get_message_loop ::
  "(string \<Rightarrow> bool) \<Rightarrow> serial \<Rightarrow> string \<Rightarrow> nat \<Rightarrow> (error + sample) option" where
  "get_message_loop shared stream m_type p =
     Option.bind (wait_for_start stream p) (\<lambda>r.
       case r of
         Inl e \<Rightarrow> Some (Inl e)
       | Inr p1 \<Rightarrow>
           (case stream p1 of
              None \<Rightarrow> Some (Inl IndexError)
            | Some b1 \<Rightarrow>
           (case stream (p1 + 1) of
              None \<Rightarrow> Some (Inl IndexError)
            | Some b2 \<Rightarrow>
           (case read_n stream (p1 + 2) (nat (uint b1 - 4)) of
              (message, p3) \<Rightarrow>
           (case stream p3 of
              None \<Rightarrow> Some (Inl IndexError)
            | Some message_end \<Rightarrow>
                if message_end \<noteq> 4 then get_message_loop shared stream m_type (p3 + 1)
                else
                  (case message_types m_type of
                     None \<Rightarrow> Some (Inl KeyError)
                   | Some wanted \<Rightarrow>
                       if \<not> is_str shared (chr b2) wanted
                       then get_message_loop shared stream m_type (p3 + 1)
                       else
                         (case unpack_motion message of
                            Inl e \<Rightarrow> Some (Inl e)
                          | Inr tsxyz \<Rightarrow> Some (Inr tsxyz))))))))"

declare wait_for_start.simps [code]
declare get_message_loop.simps [code]

text \<open>
  \<open>get_message\<close> raises \<open>ValueError\<close> for a message type that is not a key of
  \<open>message_types\<close> (the same dictionary in both drivers) and runs the loop otherwise.
\<close>

definition get_message ::
  "(string \<Rightarrow> bool) \<Rightarrow> serial \<Rightarrow> string \<Rightarrow> (error + sample) option" where
  "get_message shared stream m_type =
     (if message_types m_type = None then Some (Inl ValueError)
      else get_message_loop shared stream m_type 0)"

text \<open>
  A serial line on which the device sends euler frames and nothing else: the frame
  \<open>01 14 'e' \<dots> 04\<close> of 20 bytes, again and again, with no timeout.
\<close>

definition euler_frames :: serial where
  "euler_frames n =
     Some ([0x01, 0x14, 0x65, 0x00, 0x00, 0x03, 0xE8, 0x3F, 0xC0, 0x00, 0x00, 0xC0, 0x10, 0x00,
            0x00, 0x00, 0x00, 0x00, 0x00, 0x04] ! (n mod 20))"

section \<open>Properties of the status parser\<close>

lemma mask_byte_bit:
  fixes w :: byte
  shows "(w AND 1 \<noteq> 0) = bit w 0" "(w AND 2 \<noteq> 0) = bit w 1"
    "(w AND 4 \<noteq> 0) = bit w 2" "(w AND 8 \<noteq> 0) = bit w 3"
    "(w AND 16 \<noteq> 0) = bit w 4" "(w AND 32 \<noteq> 0) = bit w 5"
    "(w AND 64 \<noteq> 0) = bit w 6" "(w AND 128 \<noteq> 0) = bit w 7"
  using and_exp_eq_0_iff_not_bit [of w 0] and_exp_eq_0_iff_not_bit [of w 1]
    and_exp_eq_0_iff_not_bit [of w 2] and_exp_eq_0_iff_not_bit [of w 3]
    and_exp_eq_0_iff_not_bit [of w 4] and_exp_eq_0_iff_not_bit [of w 5]
    and_exp_eq_0_iff_not_bit [of w 6] and_exp_eq_0_iff_not_bit [of w 7]
  by simp_all

lemma mask_word_bit:
  fixes w :: "32 word"
  shows "(w AND 1 \<noteq> 0) = bit w 0" "(w AND 2 \<noteq> 0) = bit w 1"
    "(w AND 4 \<noteq> 0) = bit w 2" "(w AND 8 \<noteq> 0) = bit w 3"
    "(w AND 16 \<noteq> 0) = bit w 4" "(w AND 64 \<noteq> 0) = bit w 6"
  using and_exp_eq_0_iff_not_bit [of w 0] and_exp_eq_0_iff_not_bit [of w 1]
    and_exp_eq_0_iff_not_bit [of w 2] and_exp_eq_0_iff_not_bit [of w 3]
    and_exp_eq_0_iff_not_bit [of w 4] and_exp_eq_0_iff_not_bit [of w 6]
  by simp_all

lemma unpack_BBBI_take:
  "7 \<le> length message \<Longrightarrow>
   unpack_BBBI (take 7 message) =
     Inr (message ! 0, message ! 1, message ! 2,
          be32 (message ! 3) (message ! 4) (message ! 5) (message ! 6))"
  by (simp add: unpack_BBBI_def)

lemma unpack_BBBI_short:
  "length message < 7 \<Longrightarrow> unpack_BBBI (take 7 message) = Inl StructError"
  by (simp add: unpack_BBBI_def)

lemma hi_nibble:
  fixes r :: byte
  shows "drop_bit 4 r = 8 \<Longrightarrow> bit r 7"
    "drop_bit 4 r = 4 \<Longrightarrow> \<not> bit r 7 \<and> bit r 6"
    "drop_bit 4 r = 2 \<Longrightarrow> \<not> bit r 7 \<and> \<not> bit r 6 \<and> bit r 5"
    "drop_bit 4 r = 1 \<Longrightarrow> \<not> bit r 7 \<and> \<not> bit r 6 \<and> \<not> bit r 5 \<and> bit r 4"
    "drop_bit 4 r = 0 \<Longrightarrow> \<not> bit r 7 \<and> \<not> bit r 6 \<and> \<not> bit r 5 \<and> \<not> bit r 4"
proof -
  have b: "bit r (n + 4) = bit (drop_bit 4 r) n" for n
    by (simp add: bit_drop_bit_eq add.commute)
  show "drop_bit 4 r = 8 \<Longrightarrow> bit r 7" using b [of 3] by simp
  show "drop_bit 4 r = 4 \<Longrightarrow> \<not> bit r 7 \<and> bit r 6" using b [of 3] b [of 2] by simp
  show "drop_bit 4 r = 2 \<Longrightarrow> \<not> bit r 7 \<and> \<not> bit r 6 \<and> bit r 5"
    using b [of 3] b [of 2] b [of 1] by simp
  show "drop_bit 4 r = 1 \<Longrightarrow> \<not> bit r 7 \<and> \<not> bit r 6 \<and> \<not> bit r 5 \<and> bit r 4"
    using b [of 3] b [of 2] b [of 1] b [of 0] by simp
  show "drop_bit 4 r = 0 \<Longrightarrow> \<not> bit r 7 \<and> \<not> bit r 6 \<and> \<not> bit r 5 \<and> \<not> bit r 4"
    using b [of 3] b [of 2] b [of 1] b [of 0] by simp
qed

lemma lo_nibble:
  fixes r :: byte
  shows "take_bit 4 r = 8 \<Longrightarrow> bit r 3"
    "take_bit 4 r = 4 \<Longrightarrow> \<not> bit r 3 \<and> bit r 2"
    "take_bit 4 r = 2 \<Longrightarrow> \<not> bit r 3 \<and> \<not> bit r 2 \<and> bit r 1"
    "take_bit 4 r = 1 \<Longrightarrow> \<not> bit r 3 \<and> \<not> bit r 2 \<and> \<not> bit r 1 \<and> bit r 0"
    "take_bit 4 r = 0 \<Longrightarrow> \<not> bit r 3 \<and> \<not> bit r 2 \<and> \<not> bit r 1 \<and> \<not> bit r 0"
proof -
  have b: "n < 4 \<Longrightarrow> bit r n = bit (take_bit 4 r) n" for n
    by (simp add: bit_take_bit_iff)
  show "take_bit 4 r = 8 \<Longrightarrow> bit r 3" using b [of 3] by simp
  show "take_bit 4 r = 4 \<Longrightarrow> \<not> bit r 3 \<and> bit r 2" using b [of 3] b [of 2] by simp
  show "take_bit 4 r = 2 \<Longrightarrow> \<not> bit r 3 \<and> \<not> bit r 2 \<and> bit r 1"
    using b [of 3] b [of 2] b [of 1] by simp
  show "take_bit 4 r = 1 \<Longrightarrow> \<not> bit r 3 \<and> \<not> bit r 2 \<and> \<not> bit r 1 \<and> bit r 0"
    using b [of 3] b [of 2] b [of 1] b [of 0] by simp
  show "take_bit 4 r = 0 \<Longrightarrow> \<not> bit r 3 \<and> \<not> bit r 2 \<and> \<not> bit r 1 \<and> \<not> bit r 0"
    using b [of 3] b [of 2] b [of 1] b [of 0] by simp
qed

text \<open>
  The parser in closed form, the masks read as bit tests: on a payload of at least
  seven bytes it returns a configuration, and each field is a function of the bits
  of the first seven bytes.
\<close>

lemma parse_status_message_bits:
  assumes "7 \<le> length message"
  shows "parse_status_message message =
    Inr \<lparr> magnetometer_enabled = Some (bit (message ! 0) 2),
       gyroscope_enabled = Some (bit (message ! 0) 1),
       accelerometer_enabled = Some (bit (message ! 0) 0),
       gyroscope_resolution =
         (if bit (message ! 1) 7 then Some 2000 else if bit (message ! 1) 6 then Some 1000
          else if bit (message ! 1) 5 then Some 500 else if bit (message ! 1) 4 then Some 250
          else None),
       accelerometer_resolution =
         (if bit (message ! 1) 3 then Some 16 else if bit (message ! 1) 2 then Some 8
          else if bit (message ! 1) 1 then Some 4 else if bit (message ! 1) 0 then Some 2
          else None),
       low_output_rate = Some (bit (message ! 2) 0),
       heading_streaming = bit (be32 (message ! 3) (message ! 4) (message ! 5) (message ! 6)) 6,
       euler_streaming = bit (be32 (message ! 3) (message ! 4) (message ! 5) (message ! 6)) 4,
       magnetometer_streaming = bit (be32 (message ! 3) (message ! 4) (message ! 5) (message ! 6)) 3,
       quaternion_streaming = bit (be32 (message ! 3) (message ! 4) (message ! 5) (message ! 6)) 2,
       gyroscope_streaming = bit (be32 (message ! 3) (message ! 4) (message ! 5) (message ! 6)) 1,
       accelerometer_streaming = bit (be32 (message ! 3) (message ! 4) (message ! 5) (message ! 6)) 0 \<rparr>"
  unfolding parse_status_message_def unpack_BBBI_take [OF assms]
  by (simp add: Let_def mask_byte_bit mask_word_bit basic_configuration_def)

text \<open>
  Claim C5, as the specification states it: the payload \<open>07 20 01 00 00 00 02\<close>
  decodes to gyroscope enabled, accelerometer and magnetometer disabled, gyroscope
  resolution 500, accelerometer resolution unknown, low output rate false, gyroscope
  streaming true and every other streaming flag false. The parser does not return
  that: byte 0 is \<open>0x07\<close>, whose bits 0, 1 and 2 are all set, and byte 2 is \<open>0x01\<close>,
  whose bit 0 is set.
\<close>

theorem C5_status_scenario_counterexample:
  "\<not> (\<exists>c. parse_status_message [0x07, 0x20, 0x01, 0x00, 0x00, 0x00, 0x02] = Inr c
        \<and> gyroscope_enabled c = Some True
        \<and> accelerometer_enabled c = Some False
        \<and> magnetometer_enabled c = Some False
        \<and> gyroscope_resolution c = Some 500
        \<and> accelerometer_resolution c = None
        \<and> low_output_rate c = Some False
        \<and> gyroscope_streaming c
        \<and> \<not> heading_streaming c \<and> \<not> euler_streaming c \<and> \<not> magnetometer_streaming c
        \<and> \<not> quaternion_streaming c \<and> \<not> accelerometer_streaming c)"
  by (simp add: parse_status_message_def unpack_BBBI_def be32_def basic_configuration_def)

text \<open>
  Claim C5, amended: the payload \<open>07 20 01 00 00 00 02\<close> decodes to gyroscope,
  accelerometer and magnetometer all enabled, gyroscope resolution 500, accelerometer
  resolution unknown (\<open>None\<close>), low output rate true, gyroscope streaming true and
  every other streaming flag false.
\<close>

theorem C5_status_scenario:
  "parse_status_message [0x07, 0x20, 0x01, 0x00, 0x00, 0x00, 0x02] =
    Inr \<lparr> magnetometer_enabled = Some True,
       gyroscope_enabled = Some True,
       accelerometer_enabled = Some True,
       gyroscope_resolution = Some 500,
       accelerometer_resolution = None,
       low_output_rate = Some True,
       heading_streaming = False,
       euler_streaming = False,
       magnetometer_streaming = False,
       quaternion_streaming = False,
       gyroscope_streaming = True,
       accelerometer_streaming = False \<rparr>"
  by (simp add: parse_status_message_def unpack_BBBI_def be32_def basic_configuration_def)

text \<open>
  Claim C6: on every status payload of at least seven bytes the parser decodes the
  bit fields of the table. Bits 2, 1 and 0 of byte 0 are the magnetometer,
  gyroscope and accelerometer enable flags. The high nibble of byte 1 (bits 7 to 4),
  when one-hot, gives the gyroscope resolution: \<open>0b1000\<close> is 2000, \<open>0b0100\<close> is 1000,
  \<open>0b0010\<close> is 500, \<open>0b0001\<close> is 250. The low nibble of byte 1 (bits 3 to 0), when
  one-hot, gives the accelerometer resolution: \<open>0b1000\<close> is 16, \<open>0b0100\<close> is 8,
  \<open>0b0010\<close> is 4, \<open>0b0001\<close> is 2. Bit 0 of byte 2 is the low output rate. Bits 6, 4,
  3, 2, 1 and 0 of the big-endian 32-bit word in bytes 3 to 6 are the heading, euler,
  magnetometer, quaternion, gyroscope and accelerometer streaming flags.
\<close>

theorem C6_status_bitfields:
  assumes "7 \<le> length message"
  shows "\<exists>c. parse_status_message message = Inr c
    \<and> magnetometer_enabled c = Some (bit (message ! 0) 2)
    \<and> gyroscope_enabled c = Some (bit (message ! 0) 1)
    \<and> accelerometer_enabled c = Some (bit (message ! 0) 0)
    \<and> (drop_bit 4 (message ! 1) = 8 \<longrightarrow> gyroscope_resolution c = Some 2000)
    \<and> (drop_bit 4 (message ! 1) = 4 \<longrightarrow> gyroscope_resolution c = Some 1000)
    \<and> (drop_bit 4 (message ! 1) = 2 \<longrightarrow> gyroscope_resolution c = Some 500)
    \<and> (drop_bit 4 (message ! 1) = 1 \<longrightarrow> gyroscope_resolution c = Some 250)
    \<and> (take_bit 4 (message ! 1) = 8 \<longrightarrow> accelerometer_resolution c = Some 16)
    \<and> (take_bit 4 (message ! 1) = 4 \<longrightarrow> accelerometer_resolution c = Some 8)
    \<and> (take_bit 4 (message ! 1) = 2 \<longrightarrow> accelerometer_resolution c = Some 4)
    \<and> (take_bit 4 (message ! 1) = 1 \<longrightarrow> accelerometer_resolution c = Some 2)
    \<and> low_output_rate c = Some (bit (message ! 2) 0)
    \<and> heading_streaming c = bit (be32 (message ! 3) (message ! 4) (message ! 5) (message ! 6)) 6
    \<and> euler_streaming c = bit (be32 (message ! 3) (message ! 4) (message ! 5) (message ! 6)) 4
    \<and> magnetometer_streaming c = bit (be32 (message ! 3) (message ! 4) (message ! 5) (message ! 6)) 3
    \<and> quaternion_streaming c = bit (be32 (message ! 3) (message ! 4) (message ! 5) (message ! 6)) 2
    \<and> gyroscope_streaming c = bit (be32 (message ! 3) (message ! 4) (message ! 5) (message ! 6)) 1
    \<and> accelerometer_streaming c = bit (be32 (message ! 3) (message ! 4) (message ! 5) (message ! 6)) 0"
  unfolding parse_status_message_bits [OF assms]
  using hi_nibble [of "message ! 1"] lo_nibble [of "message ! 1"]
  by simp

theorem C6_status_bitfields_witness:
  "\<exists>c. parse_status_message [0x05, 0x41, 0x01, 0x00, 0x00, 0x00, 0x52, 0xAA] = Inr c
    \<and> magnetometer_enabled c = Some True
    \<and> gyroscope_enabled c = Some False
    \<and> accelerometer_enabled c = Some True
    \<and> gyroscope_resolution c = Some 1000
    \<and> accelerometer_resolution c = Some 2
    \<and> low_output_rate c = Some True
    \<and> heading_streaming c \<and> euler_streaming c \<and> \<not> magnetometer_streaming c
    \<and> \<not> quaternion_streaming c \<and> gyroscope_streaming c \<and> \<not> accelerometer_streaming c"
  using C6_status_bitfields [of "[0x05, 0x41, 0x01, 0x00, 0x00, 0x00, 0x52, 0xAA]"]
  by (simp add: be32_def)

text \<open>
  Claim C10: the parser is total on the resolution byte. For every payload of at
  least seven bytes it returns a configuration (it does not raise), whatever byte 1
  is. When several bits of the gyroscope nibble are set the highest one decides
  (2000 before 1000 before 500 before 250), when several bits of the accelerometer
  nibble are set the highest one decides (16 before 8 before 4 before 2), and a nibble
  with no bit set gives the resolution \<open>None\<close>.
\<close>

theorem C10_resolution_priority:
  assumes "7 \<le> length message"
  shows "\<exists>c. parse_status_message message = Inr c
    \<and> (bit (message ! 1) 7 \<longrightarrow> gyroscope_resolution c = Some 2000)
    \<and> (\<not> bit (message ! 1) 7 \<and> bit (message ! 1) 6 \<longrightarrow> gyroscope_resolution c = Some 1000)
    \<and> (\<not> bit (message ! 1) 7 \<and> \<not> bit (message ! 1) 6 \<and> bit (message ! 1) 5
          \<longrightarrow> gyroscope_resolution c = Some 500)
    \<and> (\<not> bit (message ! 1) 7 \<and> \<not> bit (message ! 1) 6 \<and> \<not> bit (message ! 1) 5
          \<and> bit (message ! 1) 4 \<longrightarrow> gyroscope_resolution c = Some 250)
    \<and> (drop_bit 4 (message ! 1) = 0 \<longrightarrow> gyroscope_resolution c = None)
    \<and> (bit (message ! 1) 3 \<longrightarrow> accelerometer_resolution c = Some 16)
    \<and> (\<not> bit (message ! 1) 3 \<and> bit (message ! 1) 2 \<longrightarrow> accelerometer_resolution c = Some 8)
    \<and> (\<not> bit (message ! 1) 3 \<and> \<not> bit (message ! 1) 2 \<and> bit (message ! 1) 1
          \<longrightarrow> accelerometer_resolution c = Some 4)
    \<and> (\<not> bit (message ! 1) 3 \<and> \<not> bit (message ! 1) 2 \<and> \<not> bit (message ! 1) 1
          \<and> bit (message ! 1) 0 \<longrightarrow> accelerometer_resolution c = Some 2)
    \<and> (take_bit 4 (message ! 1) = 0 \<longrightarrow> accelerometer_resolution c = None)"
  unfolding parse_status_message_bits [OF assms]
  using hi_nibble(5) [of "message ! 1"] lo_nibble(5) [of "message ! 1"]
  by simp

theorem C10_resolution_priority_witness:
  "(\<exists>c. parse_status_message [0x00, 0xF6, 0x00, 0x00, 0x00, 0x00, 0x00] = Inr c
      \<and> gyroscope_resolution c = Some 2000 \<and> accelerometer_resolution c = Some 8)
   \<and> (\<exists>c. parse_status_message [0x00, 0x00, 0x00, 0x00, 0x00, 0x00, 0x00] = Inr c
      \<and> gyroscope_resolution c = None \<and> accelerometer_resolution c = None)"
  using C10_resolution_priority [of "[0x00, 0xF6, 0x00, 0x00, 0x00, 0x00, 0x00]"]
    C10_resolution_priority [of "[0x00, 0x00, 0x00, 0x00, 0x00, 0x00, 0x00]"]
  by simp

section \<open>Properties of the reconfiguration\<close>

lemma gyro_codes:
  "gyro_resolutions r = Some g \<Longrightarrow> str_int g \<in> {''0'', ''1'', ''2'', ''3''}"
  by (auto simp: gyro_resolutions_def str_int_def str_nat.simps digit_char_def split: if_splits)

lemma accelerometer_codes:
  "accelerometer_resolutions r = Some a \<Longrightarrow> str_int a \<in> {''4'', ''5'', ''6'', ''7''}"
  by (auto simp: accelerometer_resolutions_def str_int_def str_nat.simps digit_char_def
      split: if_splits)

lemma set_gyro_resolution_valid:
  "gyro_resolutions r = Some g \<Longrightarrow>
   set_gyro_resolution (Some r) port = (None, port @ [''var'' @ str_int g])"
  by (simp add: set_gyro_resolution_def send_message_def)

lemma set_gyro_resolution_invalid:
  "resolution = None \<or> (\<exists>r. resolution = Some r \<and> gyro_resolutions r = None) \<Longrightarrow>
   set_gyro_resolution resolution port = (Some ValueError, port)"
  by (auto simp: set_gyro_resolution_def)

lemma set_accelerometer_resolution_valid:
  "accelerometer_resolutions r = Some a \<Longrightarrow>
   set_accelerometer_resolution (Some r) port = (None, port @ [''var'' @ str_int a])"
  by (simp add: set_accelerometer_resolution_def send_message_def)

lemma set_accelerometer_resolution_invalid:
  "resolution = None \<or> (\<exists>r. resolution = Some r \<and> accelerometer_resolutions r = None) \<Longrightarrow>
   set_accelerometer_resolution resolution port = (Some ValueError, port)"
  by (auto simp: set_accelerometer_resolution_def)

lemma set_configuration_valid:
  assumes "gyroscope_resolution new = Some rg" "gyro_resolutions rg = Some g"
    and "accelerometer_resolution new = Some ra" "accelerometer_resolutions ra = Some a"
  shows "set_configuration (Some cur) (Some new) port =
     (None, port @ [''var'' @ str_int g, ''var'' @ str_int a]
        @ (if accelerometer_streaming cur \<noteq> accelerometer_streaming new then [''vara''] else [])
        @ (if gyroscope_streaming cur \<noteq> gyroscope_streaming new then [''varg''] else [])
        @ (if magnetometer_streaming cur \<noteq> magnetometer_streaming new then [''varc''] else [])
        @ (if quaternion_streaming cur \<noteq> quaternion_streaming new then [''varq''] else [])
        @ (if euler_streaming cur \<noteq> euler_streaming new then [''vare''] else [])
        @ (if heading_streaming cur \<noteq> heading_streaming new then [''varh''] else []))"
  using assms
  by (simp add: set_configuration_def set_gyro_resolution_valid
      set_accelerometer_resolution_valid when_true_def send_message_def)

lemma set_configuration_gyro_invalid:
  assumes "gyroscope_resolution new = None
     \<or> (\<exists>r. gyroscope_resolution new = Some r \<and> gyro_resolutions r = None)"
  shows "set_configuration (Some cur) (Some new) port = (Some ValueError, port)"
  by (simp add: set_configuration_def set_gyro_resolution_invalid [OF assms])

lemma set_configuration_accelerometer_invalid:
  assumes "gyroscope_resolution new = Some rg" "gyro_resolutions rg = Some g"
    and "accelerometer_resolution new = None
     \<or> (\<exists>r. accelerometer_resolution new = Some r \<and> accelerometer_resolutions r = None)"
  shows "set_configuration (Some cur) (Some new) port =
     (Some ValueError, port @ [''var'' @ str_int g])"
  by (simp add: set_configuration_def assms(1) set_gyro_resolution_valid [OF assms(2)]
      set_accelerometer_resolution_invalid [OF assms(3)])

text \<open>
  Claim C4, as the specification states it: reconfiguring from a configuration to
  the same configuration sends no command at all. It does not hold: the two
  resolution commands are sent on every run. With \<open>basic_configuration\<close> as both
  arguments the port receives \<open>var3\<close> and \<open>var4\<close>.
\<close>

theorem C4_same_configuration_counterexample:
  "set_configuration (Some basic_configuration) (Some basic_configuration) []
     = (None, [''var3'', ''var4''])
   \<and> snd (set_configuration (Some basic_configuration) (Some basic_configuration) []) \<noteq> []"
  by (simp add: set_configuration_def basic_configuration_def set_gyro_resolution_def
      set_accelerometer_resolution_def gyro_resolutions_def accelerometer_resolutions_def
      send_message_def when_true_def str_int_def str_nat.simps digit_char_def)

text \<open>
  Claim C4, amended: for every configuration \<open>X\<close>, \<open>set_configuration(X, X)\<close> sends no
  toggle command (none of \<open>vara\<close>, \<open>varg\<close>, \<open>varc\<close>, \<open>varq\<close>, \<open>vare\<close>, \<open>varh\<close>); when both
  resolutions of \<open>X\<close> are keys of the resolution dictionaries it sends exactly the two
  absolute resolution commands, gyroscope first, and nothing else.
\<close>

theorem C4_same_configuration:
  "(\<exists>cmds. snd (set_configuration (Some X) (Some X) port) = port @ cmds
      \<and> (\<forall>t \<in> {''vara'', ''varg'', ''varc'', ''varq'', ''vare'', ''varh''}. t \<notin> set cmds))
   \<and> (\<forall>rg g ra a.
        gyroscope_resolution X = Some rg \<and> gyro_resolutions rg = Some g
        \<and> accelerometer_resolution X = Some ra \<and> accelerometer_resolutions ra = Some a
        \<longrightarrow> set_configuration (Some X) (Some X) port
              = (None, port @ [''var'' @ str_int g, ''var'' @ str_int a]))"
proof (intro conjI allI impI)
  fix rg g ra a
  assume "gyroscope_resolution X = Some rg \<and> gyro_resolutions rg = Some g
        \<and> accelerometer_resolution X = Some ra \<and> accelerometer_resolutions ra = Some a"
  then show "set_configuration (Some X) (Some X) port
              = (None, port @ [''var'' @ str_int g, ''var'' @ str_int a])"
    using set_configuration_valid [of X rg g ra a X port] by simp
next
  let ?T = "{''vara'', ''varg'', ''varc'', ''varq'', ''vare'', ''varh''}"
  let ?P = "\<lambda>cmds. snd (set_configuration (Some X) (Some X) port) = port @ cmds
      \<and> (\<forall>t \<in> ?T. t \<notin> set cmds)"
  show "\<exists>cmds. ?P cmds"
  proof (cases "gyroscope_resolution X = None
     \<or> (\<exists>r. gyroscope_resolution X = Some r \<and> gyro_resolutions r = None)")
    case True
    then have "?P []"
      by (simp add: set_configuration_gyro_invalid)
    then show ?thesis ..
  next
    case False
    then obtain rg g where g: "gyroscope_resolution X = Some rg" "gyro_resolutions rg = Some g"
      by (cases "gyroscope_resolution X") auto
    have gs: "str_int g \<in> {''0'', ''1'', ''2'', ''3''}"
      by (rule gyro_codes [OF g(2)])
    show ?thesis
    proof (cases "accelerometer_resolution X = None
     \<or> (\<exists>r. accelerometer_resolution X = Some r \<and> accelerometer_resolutions r = None)")
      case True
      have "?P [''var'' @ str_int g]"
        using gs by (auto simp: set_configuration_accelerometer_invalid [OF g True])
      then show ?thesis ..
    next
      case False
      then obtain ra a where a: "accelerometer_resolution X = Some ra"
        "accelerometer_resolutions ra = Some a"
        by (cases "accelerometer_resolution X") auto
      have as: "str_int a \<in> {''4'', ''5'', ''6'', ''7''}"
        by (rule accelerometer_codes [OF a(2)])
      have "?P [''var'' @ str_int g, ''var'' @ str_int a]"
        using gs as by (auto simp: set_configuration_valid [OF g a])
      then show ?thesis ..
    qed
  qed
qed

theorem C4_same_configuration_witness:
  "set_configuration (Some basic_configuration) (Some basic_configuration) [''vars'']
     = (None, [''vars'', ''var3'', ''var4''])"
proof -
  have "gyroscope_resolution basic_configuration = Some 2000 \<and> gyro_resolutions 2000 = Some 3
        \<and> accelerometer_resolution basic_configuration = Some 2
        \<and> accelerometer_resolutions 2 = Some 4"
    by (simp add: basic_configuration_def gyro_resolutions_def accelerometer_resolutions_def)
  then have "set_configuration (Some basic_configuration) (Some basic_configuration) [''vars'']
      = (None, [''vars''] @ [''var'' @ str_int 3, ''var'' @ str_int 4])"
    using C4_same_configuration [of basic_configuration "[''vars'']"] by blast
  then show ?thesis
    by (simp add: str_int_def str_nat.simps digit_char_def)
qed

text \<open>
  Claim C7, as the specification states it: for every pair of configurations each
  toggle command is sent exactly when the two values of its flag differ. It does
  not hold for every pair: when a resolution of the desired configuration is not a
  key of its dictionary (\<open>None\<close>, which the status parser returns for an empty nibble),
  \<open>ValueError\<close> is raised before any toggle command is sent. Here the accelerometer
  streaming flags differ and nothing is sent.
\<close>

theorem C7_toggle_commands_counterexample:
  "accelerometer_streaming basic_configuration
     \<noteq> accelerometer_streaming
          (basic_configuration\<lparr>gyroscope_resolution := None, accelerometer_streaming := True\<rparr>)
   \<and> set_configuration (Some basic_configuration)
        (Some (basic_configuration\<lparr>gyroscope_resolution := None, accelerometer_streaming := True\<rparr>))
        [] = (Some ValueError, [])"
  by (simp add: set_configuration_def basic_configuration_def set_gyro_resolution_def)

text \<open>
  Claim C7, amended: for every pair of configurations whose desired gyroscope and
  accelerometer resolutions are keys of the resolution dictionaries, the
  reconfiguration sends, after the two resolution commands, the toggle command of
  each of the six streaming flags if and only if the current and the desired value
  of that flag differ, in the fixed order \<open>vara\<close>, \<open>varg\<close>, \<open>varc\<close>, \<open>varq\<close>, \<open>vare\<close>,
  \<open>varh\<close>.
\<close>

theorem C7_toggle_commands:
  assumes "gyroscope_resolution desired = Some rg" "gyro_resolutions rg = Some g"
    and "accelerometer_resolution desired = Some ra" "accelerometer_resolutions ra = Some a"
  shows "set_configuration (Some current) (Some desired) port =
     (None, port @ [''var'' @ str_int g, ''var'' @ str_int a]
        @ (if accelerometer_streaming current \<noteq> accelerometer_streaming desired then [''vara''] else [])
        @ (if gyroscope_streaming current \<noteq> gyroscope_streaming desired then [''varg''] else [])
        @ (if magnetometer_streaming current \<noteq> magnetometer_streaming desired then [''varc''] else [])
        @ (if quaternion_streaming current \<noteq> quaternion_streaming desired then [''varq''] else [])
        @ (if euler_streaming current \<noteq> euler_streaming desired then [''vare''] else [])
        @ (if heading_streaming current \<noteq> heading_streaming desired then [''varh''] else []))"
proof -
  have gyro: "set_gyro_resolution (gyroscope_resolution desired) p
      = (None, p @ [''var'' @ str_int g])" for p
    unfolding assms(1) by (rule set_gyro_resolution_valid [OF assms(2)])
  have accelerometer: "set_accelerometer_resolution (accelerometer_resolution desired) p
      = (None, p @ [''var'' @ str_int a])" for p
    unfolding assms(3) by (rule set_accelerometer_resolution_valid [OF assms(4)])
  show ?thesis
    unfolding set_configuration_def
    by (simp add: gyro accelerometer when_true_def send_message_def)
qed

theorem C7_toggle_commands_witness:
  "set_configuration
     (Some (basic_configuration\<lparr>heading_streaming := True, quaternion_streaming := True\<rparr>))
     (Some (basic_configuration\<lparr>gyroscope_streaming := False, quaternion_streaming := True,
              accelerometer_streaming := True\<rparr>)) []
   = (None, [''var3'', ''var4'', ''vara'', ''varg'', ''varh''])"
proof -
  have r: "gyro_resolutions 2000 = Some 3" "accelerometer_resolutions 2 = Some 4"
    by (simp_all add: gyro_resolutions_def accelerometer_resolutions_def)
  show ?thesis
    using C7_toggle_commands [of
        "basic_configuration\<lparr>gyroscope_streaming := False, quaternion_streaming := True,
              accelerometer_streaming := True\<rparr>" 2000 3 2 4
        "basic_configuration\<lparr>heading_streaming := True, quaternion_streaming := True\<rparr>" "[]"] r
    by (simp add: basic_configuration_def str_int_def str_nat.simps digit_char_def)
qed

section \<open>Properties of the payload decoders\<close>

lemma unpack_Ifff_take:
  "16 \<le> length message \<Longrightarrow>
   unpack_Ifff (take 16 message) =
     Inr (be32 (message ! 0) (message ! 1) (message ! 2) (message ! 3),
          Float32 (be32 (message ! 4) (message ! 5) (message ! 6) (message ! 7)),
          Float32 (be32 (message ! 8) (message ! 9) (message ! 10) (message ! 11)),
          Float32 (be32 (message ! 12) (message ! 13) (message ! 14) (message ! 15)))"
  by (simp add: unpack_Ifff_def)

lemma unpack_Ifff_short:
  "length message < 16 \<Longrightarrow> unpack_Ifff (take 16 message) = Inl StructError"
  by (simp add: unpack_Ifff_def)

text \<open>
  Claim C8: decoding a motion payload fails (with \<open>struct.error\<close>, the malformed
  payload error) if and only if the payload is shorter than 16 bytes, and otherwise
  returns the big-endian unsigned 32-bit timestamp of bytes 0 to 3 followed by the
  three big-endian 32-bit floats of bytes 4 to 7, 8 to 11 and 12 to 15; decoding a
  status payload fails with the same error if and only if the payload is shorter
  than 7 bytes.
\<close>

theorem C8_payload_decoding:
  "((\<exists>e. unpack_motion message = Inl e) \<longleftrightarrow> length message < 16)
   \<and> (length message < 16 \<longrightarrow> unpack_motion message = Inl StructError)
   \<and> (16 \<le> length message \<longrightarrow>
        unpack_motion message =
          Inr (be32 (message ! 0) (message ! 1) (message ! 2) (message ! 3),
               Float32 (be32 (message ! 4) (message ! 5) (message ! 6) (message ! 7)),
               Float32 (be32 (message ! 8) (message ! 9) (message ! 10) (message ! 11)),
               Float32 (be32 (message ! 12) (message ! 13) (message ! 14) (message ! 15))))
   \<and> ((\<exists>e. parse_status_message payload = Inl e) \<longleftrightarrow> length payload < 7)
   \<and> (length payload < 7 \<longrightarrow> parse_status_message payload = Inl StructError)"
proof -
  have m: "(\<exists>e. unpack_motion message = Inl e) \<longleftrightarrow> length message < 16"
    using unpack_Ifff_take [of message] unpack_Ifff_short [of message]
    by (cases "length message < 16") (simp_all add: unpack_motion_def)
  have s: "(\<exists>e. parse_status_message payload = Inl e) \<longleftrightarrow> length payload < 7"
    using parse_status_message_bits [of payload] unpack_BBBI_short [of payload]
    by (cases "length payload < 7") (simp_all add: parse_status_message_def)
  show ?thesis
    using m s unpack_Ifff_take [of message] unpack_Ifff_short [of message]
      unpack_BBBI_short [of payload]
    by (simp add: unpack_motion_def parse_status_message_def)
qed

theorem C8_payload_decoding_witness:
  "unpack_motion [0x00, 0x00, 0x03, 0xE8, 0x3F, 0xC0, 0x00, 0x00, 0xC0, 0x10, 0x00, 0x00,
       0x00, 0x00, 0x00, 0x00, 0x55] = Inr (1000, Float32 0x3FC00000, Float32 0xC0100000, Float32 0)
   \<and> unpack_motion [0x00, 0x00, 0x03, 0xE8] = Inl StructError
   \<and> parse_status_message [0x07, 0x20, 0x01] = Inl StructError"
  using C8_payload_decoding [of "[0x00, 0x00, 0x03, 0xE8, 0x3F, 0xC0, 0x00, 0x00, 0xC0, 0x10, 0x00,
       0x00, 0x00, 0x00, 0x00, 0x00, 0x55]" "[0x07, 0x20, 0x01]"]
    C8_payload_decoding [of "[0x00, 0x00, 0x03, 0xE8]" "[0x07, 0x20, 0x01]"]
  by (simp add: be32_def)

section \<open>Properties of the scanner\<close>

lemma py_index_nat:
  "py_index xs (int n) = (if n < length xs then Some (xs ! n) else None)"
  by (simp add: py_index_def)

lemma py_slice_from_nat: "py_slice_from xs (int n) = drop n xs"
  by (cases "n \<le> length xs") (simp_all add: py_slice_from_def py_bound_def min_def)

lemma py_slice_nat: "py_slice xs (int a) (int b) = take (b - a) (drop a xs)"
  by (cases "a \<le> length xs"; cases "b \<le> length xs") (auto simp: py_slice_def py_bound_def)

lemma scan_step_not_marker: "c \<noteq> 1 \<Longrightarrow> scan_step shared m_type i c data = Skip"
  by (simp add: scan_step_def)

lemma scan_step_candidate:
  assumes len: "unat L = length payload + 4"
    and room: "20 \<le> length ([L, t] @ payload @ [e] @ post)"
  shows "scan_step shared m_type (length pre) 1 (pre @ [1, L, t] @ payload @ [e] @ post) =
     (if e = 4 then
        (case message_types m_type of
           None \<Rightarrow> Raise KeyError
         | Some wanted \<Rightarrow>
             if is_str shared (chr t) wanted then
               (case unpack_motion payload of Inl er \<Rightarrow> Raise er | Inr tsxyz \<Rightarrow> Return tsxyz)
             else Drop (e # post))
      else Drop (e # post))"
proof -
  let ?data = "pre @ [1, L, t] @ payload @ [e] @ post"
  let ?i = "length pre"
  have size: "uint L - 4 = int (length payload)"
    using len by (simp add: uint_nat)
  have k: "int ?i + 3 + (uint L - 4) = int (?i + 3 + length payload)"
    using size by simp
  have i1: "int ?i + 1 = int (?i + 1)" and i2: "int ?i + 2 = int (?i + 2)"
    and i3: "int ?i + 3 = int (?i + 3)"
    by simp_all
  have guard: "length (py_slice_from ?data (int ?i)) > 20"
    using room by (simp add: py_slice_from_nat)
  have b1: "py_index ?data (int ?i + 1) = Some L"
    unfolding i1 py_index_nat by (simp add: nth_append)
  have b2: "py_index ?data (int ?i + 2) = Some t"
    unfolding i2 py_index_nat by (simp add: nth_append)
  have "?data = (pre @ [1, L, t] @ payload) @ e # post" by simp
  moreover have "length (pre @ [1, L, t] @ payload) = ?i + 3 + length payload" by simp
  ultimately have at_k: "?data ! (?i + 3 + length payload) = e"
    and from_k: "drop (?i + 3 + length payload) ?data = e # post"
    by (metis nth_append_length, metis append_eq_conv_conj)
  have me: "py_index ?data (int ?i + 3 + (uint L - 4)) = Some e"
    unfolding k py_index_nat using at_k by simp
  have rest: "py_slice_from ?data (int ?i + 3 + (uint L - 4)) = e # post"
    unfolding k py_slice_from_nat by (rule from_k)
  have "?data = (pre @ [1, L, t]) @ payload @ e # post" by simp
  moreover have "length (pre @ [1, L, t]) = ?i + 3" by simp
  ultimately have d3: "drop (?i + 3) ?data = payload @ e # post"
    by (metis append_eq_conv_conj)
  have msg: "py_slice ?data (int ?i + 3) (int ?i + 3 + (uint L - 4)) = payload"
  proof -
    have "py_slice ?data (int (?i + 3)) (int (?i + 3 + length payload))
        = take (length payload) (drop (?i + 3) ?data)"
      by (simp only: py_slice_nat) simp
    also have "\<dots> = payload"
      by (simp only: d3) simp
    finally show ?thesis
      using size by simp
  qed
  show ?thesis
    unfolding scan_step_def using guard b1 b2 me rest msg
    by (auto simp: Let_def split: option.split)
qed

lemma scan_loop_skip:
  "1 \<notin> set pre \<Longrightarrow>
   scan_loop shared m_type i (pre @ rest) data
     = scan_loop shared m_type (i + length pre) rest data"
  by (induction pre arbitrary: i) (auto simp: scan_step_not_marker)

lemma scan_loop_no_marker:
  "1 \<notin> set cs \<Longrightarrow> scan_loop shared m_type i cs data = Continue data"
  using scan_loop_skip [of cs shared m_type i "[]" data] by simp

lemma scan_buffer_no_marker:
  "1 \<notin> set data \<Longrightarrow> scan_buffer shared m_type data = Continue data"
  by (simp add: scan_buffer_def scan_loop_no_marker)

text \<open>
  A pass on a buffer whose first byte \<open>0x01\<close> is at index \<open>length pre\<close>: the elements
  before it are skipped with the buffer unchanged, and the body runs at that index on
  the buffer as it was when the pass began.
\<close>

lemma scan_buffer_candidate:
  assumes "1 \<notin> set pre"
  shows "scan_buffer shared m_type (pre @ [1, L, t] @ rest) =
     (case scan_step shared m_type (length pre) 1 (pre @ [1, L, t] @ rest) of
        Skip \<Rightarrow>
          scan_loop shared m_type (Suc (length pre)) ([L, t] @ rest) (pre @ [1, L, t] @ rest)
      | Drop data' \<Rightarrow> scan_loop shared m_type (Suc (length pre)) ([L, t] @ rest) data'
      | Reset \<Rightarrow> Continue []
      | Return tsxyz \<Rightarrow> Returned tsxyz
      | Raise e \<Rightarrow> Raised e)"
  using scan_loop_skip [OF assms, of shared m_type 0 "[1, L, t] @ rest" "pre @ [1, L, t] @ rest"]
  by (simp add: scan_buffer_def split: step.split)

lemma scan_buffer_first_drop:
  assumes first: "1 \<notin> set pre"
    and step: "scan_step shared m_type (length pre) 1 (pre @ [1, L, t] @ payload @ [e] @ post)
       = Drop (e # post)"
  shows "scan_buffer shared m_type (pre @ [1, L, t] @ payload @ [e] @ post)
     = scan_loop shared m_type (Suc (length pre)) ([L, t] @ payload @ [e] @ post) (e # post)"
  unfolding scan_buffer_candidate [OF first] step by simp

lemma scan_buffer_drop:
  assumes clean: "1 \<notin> set pre" "1 \<notin> set ([L, t] @ payload @ [e] @ post)"
    and step: "scan_step shared m_type (length pre) 1 (pre @ [1, L, t] @ payload @ [e] @ post)
       = Drop (e # post)"
  shows "scan_buffer shared m_type (pre @ [1, L, t] @ payload @ [e] @ post)
     = Continue (e # post)"
  unfolding scan_buffer_first_drop [OF clean(1) step]
  using scan_loop_no_marker [OF clean(2)] by simp

lemma chr_codes: "chr 0x67 = ''g''" "chr 0x65 = ''e''"
  by (simp_all add: chr_def char_of_eq_iff)

lemma message_types_gyro: "message_types ''gyro'' = Some ''g''"
  by (simp add: message_types_def)

lemma message_types_euler: "message_types ''euler'' = Some ''e''"
  by (simp add: message_types_def)

text \<open>
  Claim C1, as the specification states it: a valid frame of the wanted type with at
  least 20 bytes after its start marker is returned whatever bytes precede it. It
  does not hold: a preceding byte \<open>0x01\<close> is taken for a start marker. Here the two
  bytes \<open>01 FF\<close> precede the frame \<open>01 14 'g' \<dots> 04\<close> (timestamp 1000); the terminator
  index computed from \<open>FF\<close> is out of range, the buffer is emptied, and the pass ends
  without returning the frame. The wanted type is gyro, whose tag \<open>'g'\<close> passes the
  identity test of the interpreter.
\<close>

theorem C1_frame_counterexample:
  "scan_buffer (\<lambda>s. s = ''g'') ''gyro''
     ([0x01, 0xFF] @
      [0x01, 0x14, 0x67, 0x00, 0x00, 0x03, 0xE8, 0x3F, 0xC0, 0x00, 0x00, 0xC0, 0x10, 0x00, 0x00,
       0x00, 0x00, 0x00, 0x00, 0x04] @ [0x00]) = Continue []
   \<and> scan_buffer (\<lambda>s. s = ''g'') ''gyro''
     ([0x01, 0xFF] @
      [0x01, 0x14, 0x67, 0x00, 0x00, 0x03, 0xE8, 0x3F, 0xC0, 0x00, 0x00, 0xC0, 0x10, 0x00, 0x00,
       0x00, 0x00, 0x00, 0x00, 0x04] @ [0x00])
     \<noteq> Returned (1000, Float32 0x3FC00000, Float32 0xC0100000, Float32 0)"
  by (simp add: scan_buffer_def scan_step_def py_slice_from_def py_bound_def py_index_def)

text \<open>
  Claim C1, amended: for every buffer that contains a valid frame of the wanted type
  (start marker \<open>0x01\<close>, declared length, wanted type tag, payload of declared length
  minus 4 bytes, terminator \<open>0x04\<close>) whose payload has at least 16 bytes, with at least
  20 bytes following the start marker and no byte \<open>0x01\<close> before it, and whose type tag
  passes the identity test of the interpreter (the string that \<open>chr\<close> makes of the tag
  byte is the object that \<open>message_types\<close> holds; on CPython 3.11 and 3.12 this is so
  for \<open>'g'\<close> only), one pass of the scanner returns the timestamp and the three floats
  decoded from the first 16 payload bytes of that frame, whatever the other
  preceding bytes are. Nothing is said of a tag that fails the identity test.
\<close>

theorem C1_frame_recovered:
  assumes wanted: "message_types m_type = Some (chr t)"
    and same: "shared (chr t)"
    and clean: "1 \<notin> set pre"
    and len: "unat L = length payload + 4"
    and payload: "16 \<le> length payload"
    and room: "20 \<le> length ([L, t] @ payload @ [4] @ post)"
  shows "scan_buffer shared m_type (pre @ [1, L, t] @ payload @ [4] @ post) =
     Returned (be32 (payload ! 0) (payload ! 1) (payload ! 2) (payload ! 3),
               Float32 (be32 (payload ! 4) (payload ! 5) (payload ! 6) (payload ! 7)),
               Float32 (be32 (payload ! 8) (payload ! 9) (payload ! 10) (payload ! 11)),
               Float32 (be32 (payload ! 12) (payload ! 13) (payload ! 14) (payload ! 15)))"
  unfolding scan_buffer_candidate [OF clean] scan_step_candidate [OF len room]
  using wanted same unpack_Ifff_take [OF payload]
  by (simp add: unpack_motion_def is_str_def)

theorem C1_frame_recovered_witness:
  "scan_buffer (\<lambda>s. s = ''g'') ''gyro''
     ([0x09, 0x08, 0x07] @
      [0x01, 0x14, 0x67] @
      [0x00, 0x00, 0x03, 0xE8, 0x3F, 0xC0, 0x00, 0x00, 0xC0, 0x10, 0x00, 0x00,
       0x00, 0x00, 0x00, 0x00] @ [0x04] @ [0x00])
   = Returned (1000, Float32 0x3FC00000, Float32 0xC0100000, Float32 0)"
  using C1_frame_recovered [where m_type = "''gyro''" and t = "0x67"
      and shared = "\<lambda>s. s = ''g''" and pre = "[0x09, 0x08, 0x07]" and L = "0x14"
      and payload = "[0x00, 0x00, 0x03, 0xE8, 0x3F, 0xC0, 0x00, 0x00, 0xC0, 0x10, 0x00, 0x00,
       0x00, 0x00, 0x00, 0x00]" and post = "[0x00]"]
  by (simp add: message_types_gyro chr_codes be32_def)

text \<open>
  What the identity test does to a frame of the wanted type whose tag fails it: the
  frame is handled as a frame of another type. With the parameter of CPython 3.11
  and 3.12 a euler frame is not returned to a caller who asks for euler, the default
  of \<open>get_vmu_packet\<close>.
\<close>

lemma scan_step_tag_not_shared:
  assumes wanted: "message_types m_type = Some (chr t)"
    and other: "\<not> shared (chr t)"
    and len: "unat L = length payload + 4"
    and room: "20 \<le> length ([L, t] @ payload @ [4] @ post)"
  shows "scan_step shared m_type (length pre) 1 (pre @ [1, L, t] @ payload @ [4] @ post)
       = Drop (4 # post)"
  unfolding scan_step_candidate [OF len room] using wanted other by (simp add: is_str_def)

lemma scan_buffer_euler_example:
  "scan_buffer (\<lambda>s. s = ''g'') ''euler''
     ([] @ [0x01, 0x14, 0x65] @
      [0x00, 0x00, 0x03, 0xE8, 0x3F, 0xC0, 0x00, 0x00, 0xC0, 0x10, 0x00, 0x00,
       0x00, 0x00, 0x00, 0x00] @ [0x04] @ [0x00])
   = Continue [0x04, 0x00]"
proof -
  have "scan_step (\<lambda>s. s = ''g'') ''euler'' (length ([] :: byte list)) 1
     ([] @ [0x01, 0x14, 0x65] @
      [0x00, 0x00, 0x03, 0xE8, 0x3F, 0xC0, 0x00, 0x00, 0xC0, 0x10, 0x00, 0x00,
       0x00, 0x00, 0x00, 0x00] @ [0x04] @ [0x00])
     = Drop (0x04 # [0x00])"
    by (rule scan_step_tag_not_shared) (simp_all add: message_types_euler chr_codes)
  from scan_buffer_drop [OF _ _ this] show ?thesis by simp
qed

text \<open>
  Claim C2, as the specification states it: at a start marker whose terminator
  position holds a byte other than \<open>0x04\<close> only the marker byte is consumed, and the
  bytes read as length, type and payload stay in the buffer. It does not hold: the
  buffer is cut at the terminator position. Here the marker is at index 0 with
  declared length 5, so that the terminator position is index 4; it holds \<open>0x00\<close>, and
  the buffer loses its first four bytes, not one.
\<close>

theorem C2_spurious_marker_counterexample:
  "scan_step (\<lambda>s. s = ''g'') ''gyro'' 0 1
     [0x01, 0x05, 0x67, 0x09, 0x00, 0x00, 0x00, 0x00, 0x00, 0x00, 0x00,
      0x00, 0x00, 0x00, 0x00, 0x00, 0x00, 0x00, 0x00, 0x00, 0x00]
     = Drop [0x00, 0x00, 0x00, 0x00, 0x00, 0x00, 0x00,
             0x00, 0x00, 0x00, 0x00, 0x00, 0x00, 0x00, 0x00, 0x00, 0x00]
   \<and> scan_buffer (\<lambda>s. s = ''g'') ''gyro''
     [0x01, 0x05, 0x67, 0x09, 0x00, 0x00, 0x00, 0x00, 0x00, 0x00, 0x00,
      0x00, 0x00, 0x00, 0x00, 0x00, 0x00, 0x00, 0x00, 0x00, 0x00]
     = Continue [0x00, 0x00, 0x00, 0x00, 0x00, 0x00, 0x00,
             0x00, 0x00, 0x00, 0x00, 0x00, 0x00, 0x00, 0x00, 0x00, 0x00]
   \<and> scan_buffer (\<lambda>s. s = ''g'') ''gyro''
     [0x01, 0x05, 0x67, 0x09, 0x00, 0x00, 0x00, 0x00, 0x00, 0x00, 0x00,
      0x00, 0x00, 0x00, 0x00, 0x00, 0x00, 0x00, 0x00, 0x00, 0x00]
     \<noteq> Continue [0x05, 0x67, 0x09, 0x00, 0x00, 0x00, 0x00, 0x00, 0x00, 0x00,
      0x00, 0x00, 0x00, 0x00, 0x00, 0x00, 0x00, 0x00, 0x00, 0x00]"
proof -
  have s: "scan_step (\<lambda>s. s = ''g'') ''gyro'' (length ([]::byte list)) 1
     ([] @ [1, 0x05, 0x67] @ [0x09] @ [0x00] @ [0x00, 0x00, 0x00, 0x00, 0x00, 0x00,
      0x00, 0x00, 0x00, 0x00, 0x00, 0x00, 0x00, 0x00, 0x00, 0x00])
     = Drop (0x00 # [0x00, 0x00, 0x00, 0x00, 0x00, 0x00,
      0x00, 0x00, 0x00, 0x00, 0x00, 0x00, 0x00, 0x00, 0x00, 0x00])"
    by (subst scan_step_candidate) simp_all
  have b: "scan_buffer (\<lambda>s. s = ''g'') ''gyro''
     ([] @ [1, 0x05, 0x67] @ [0x09] @ [0x00] @ [0x00, 0x00, 0x00, 0x00, 0x00, 0x00,
      0x00, 0x00, 0x00, 0x00, 0x00, 0x00, 0x00, 0x00, 0x00, 0x00])
     = Continue (0x00 # [0x00, 0x00, 0x00, 0x00, 0x00, 0x00,
      0x00, 0x00, 0x00, 0x00, 0x00, 0x00, 0x00, 0x00, 0x00, 0x00])"
    by (rule scan_buffer_drop [OF _ _ s]) simp_all
  show ?thesis using s b by simp
qed

text \<open>
  Claim C2, amended: at the first start marker of a pass (no byte \<open>0x01\<close> before it in
  the buffer) with more than 20 bytes from the marker on, a declared length of at
  least 4 and a byte other than \<open>0x04\<close> at the terminator position, the scanner
  discards every byte before the terminator position (the bytes before the marker,
  the marker, and the bytes read as length, type and payload) and keeps the byte at
  the terminator position and all bytes after it: the loop body cuts the buffer
  there, the pass goes on with the buffer so cut, and when no other byte \<open>0x01\<close> is in
  the buffer the pass ends with exactly that remainder. Nothing is said of a marker
  that comes after another marker of the same pass.
\<close>

theorem C2_spurious_marker:
  assumes first: "1 \<notin> set pre"
    and len: "unat L = length payload + 4"
    and room: "20 \<le> length ([L, t] @ payload @ [e] @ post)"
    and bad: "e \<noteq> 4"
  shows "scan_step shared m_type (length pre) 1 (pre @ [1, L, t] @ payload @ [e] @ post)
       = Drop (e # post)
     \<and> scan_buffer shared m_type (pre @ [1, L, t] @ payload @ [e] @ post)
       = scan_loop shared m_type (Suc (length pre)) ([L, t] @ payload @ [e] @ post) (e # post)
     \<and> (1 \<notin> set ([L, t] @ payload @ [e] @ post) \<longrightarrow>
          scan_buffer shared m_type (pre @ [1, L, t] @ payload @ [e] @ post)
            = Continue (e # post))"
proof -
  have step: "scan_step shared m_type (length pre) 1 (pre @ [1, L, t] @ payload @ [e] @ post)
       = Drop (e # post)"
    unfolding scan_step_candidate [OF len room] using bad by simp
  show ?thesis
    using step scan_buffer_first_drop [OF first step] scan_buffer_drop [OF first _ step]
    by blast
qed

theorem C2_spurious_marker_witness:
  "scan_step (\<lambda>s. s = ''g'') ''gyro'' 1 1
     ([0x07] @ [0x01, 0x05, 0x67] @ [0x09] @ [0x02] @ [0x03, 0x00, 0x00, 0x00, 0x00, 0x00,
      0x00, 0x00, 0x00, 0x00, 0x00, 0x00, 0x00, 0x00, 0x00, 0x00, 0x00])
     = Drop [0x02, 0x03, 0x00, 0x00, 0x00, 0x00, 0x00,
      0x00, 0x00, 0x00, 0x00, 0x00, 0x00, 0x00, 0x00, 0x00, 0x00, 0x00]
   \<and> scan_buffer (\<lambda>s. s = ''g'') ''gyro''
     ([0x07] @ [0x01, 0x05, 0x67] @ [0x09] @ [0x02] @ [0x03, 0x00, 0x00, 0x00, 0x00, 0x00,
      0x00, 0x00, 0x00, 0x00, 0x00, 0x00, 0x00, 0x00, 0x00, 0x00, 0x00])
     = Continue [0x02, 0x03, 0x00, 0x00, 0x00, 0x00, 0x00,
      0x00, 0x00, 0x00, 0x00, 0x00, 0x00, 0x00, 0x00, 0x00, 0x00, 0x00]"
proof -
  let ?post = "[0x03, 0x00, 0x00, 0x00, 0x00, 0x00,
      0x00, 0x00, 0x00, 0x00, 0x00, 0x00, 0x00, 0x00, 0x00, 0x00, 0x00] :: byte list"
  note w = C2_spurious_marker [where pre = "[0x07]" and L = "0x05" and t = "0x67"
      and payload = "[0x09]" and e = "0x02" and shared = "\<lambda>s. s = ''g''"
      and m_type = "''gyro''" and post = ?post]
  have h: "1 \<notin> set [0x07 :: byte]" "unat (0x05 :: byte) = length [0x09 :: byte] + 4"
    "20 \<le> length ([0x05, 0x67] @ [0x09] @ [0x02] @ ?post)" "(0x02 :: byte) \<noteq> 4"
    by simp_all
  have q: "1 \<notin> set ([0x05, 0x67] @ [0x09] @ [0x02] @ ?post)"
    by simp
  from w [OF h] have step: "scan_step (\<lambda>s. s = ''g'') ''gyro'' (length [0x07 :: byte]) 1
      ([0x07] @ [1, 0x05, 0x67] @ [0x09] @ [0x02] @ ?post) = Drop (0x02 # ?post)"
    by (rule conjunct1)
  from w [OF h] q have pass: "scan_buffer (\<lambda>s. s = ''g'') ''gyro''
      ([0x07] @ [1, 0x05, 0x67] @ [0x09] @ [0x02] @ ?post) = Continue (0x02 # ?post)"
    by blast
  show ?thesis using step pass by simp
qed

text \<open>
  Claim C3, as the specification states it: a valid frame of another type is dropped
  from its start marker through its terminator, the terminator included. It does
  not hold: the slice starts at the terminator, which stays in the buffer. Here an
  \<open>'e'\<close> frame of 20 bytes is followed by two bytes, the wanted type is \<open>'g'\<close>, and the
  buffer that remains is \<open>04 00 00\<close>, not \<open>00 00\<close>.
\<close>

theorem C3_wrong_type_counterexample:
  "scan_step (\<lambda>s. s = ''g'') ''gyro'' 0 1
     [0x01, 0x14, 0x65, 0x00, 0x00, 0x00, 0x00, 0x00, 0x00, 0x00, 0x00, 0x00, 0x00, 0x00,
      0x00, 0x00, 0x00, 0x00, 0x00, 0x04, 0x00, 0x00] = Drop [0x04, 0x00, 0x00]
   \<and> scan_buffer (\<lambda>s. s = ''g'') ''gyro''
     [0x01, 0x14, 0x65, 0x00, 0x00, 0x00, 0x00, 0x00, 0x00, 0x00, 0x00, 0x00, 0x00, 0x00,
      0x00, 0x00, 0x00, 0x00, 0x00, 0x04, 0x00, 0x00] = Continue [0x04, 0x00, 0x00]
   \<and> scan_buffer (\<lambda>s. s = ''g'') ''gyro''
     [0x01, 0x14, 0x65, 0x00, 0x00, 0x00, 0x00, 0x00, 0x00, 0x00, 0x00, 0x00, 0x00, 0x00,
      0x00, 0x00, 0x00, 0x00, 0x00, 0x04, 0x00, 0x00] \<noteq> Continue [0x00, 0x00]"
proof -
  have s: "scan_step (\<lambda>s. s = ''g'') ''gyro'' (length ([]::byte list)) 1
     ([] @ [1, 0x14, 0x65] @ [0x00, 0x00, 0x00, 0x00, 0x00, 0x00, 0x00, 0x00, 0x00, 0x00, 0x00,
      0x00, 0x00, 0x00, 0x00, 0x00] @ [0x04] @ [0x00, 0x00])
     = Drop (0x04 # [0x00, 0x00])"
    by (subst scan_step_candidate) (simp_all add: message_types_gyro chr_codes is_str_def)
  have b: "scan_buffer (\<lambda>s. s = ''g'') ''gyro''
     ([] @ [1, 0x14, 0x65] @ [0x00, 0x00, 0x00, 0x00, 0x00, 0x00, 0x00, 0x00, 0x00, 0x00, 0x00,
      0x00, 0x00, 0x00, 0x00, 0x00] @ [0x04] @ [0x00, 0x00])
     = Continue (0x04 # [0x00, 0x00])"
    by (rule scan_buffer_drop [OF _ _ s]) simp_all
  show ?thesis using s b by simp
qed

text \<open>
  Claim C3, amended: at the first start marker of a pass (no byte \<open>0x01\<close> before it in
  the buffer) that begins a valid frame (terminator \<open>0x04\<close>) with more than 20 bytes
  from the marker on and a type tag that differs from the wanted type, the scanner
  discards every byte before the terminator (the bytes before the marker, the
  marker, the length, the type and the payload) and keeps the terminator byte and all
  bytes after it: the loop body cuts the buffer there, the pass goes on with the
  buffer so cut, and when no other byte \<open>0x01\<close> is in the buffer the pass ends with
  exactly that remainder. Nothing is said of a frame that comes after another marker
  of the same pass.
\<close>

theorem C3_wrong_type:
  assumes first: "1 \<notin> set pre"
    and wanted: "message_types m_type = Some wanted"
    and other: "chr t \<noteq> wanted"
    and len: "unat L = length payload + 4"
    and room: "20 \<le> length ([L, t] @ payload @ [4] @ post)"
  shows "scan_step shared m_type (length pre) 1 (pre @ [1, L, t] @ payload @ [4] @ post)
       = Drop (4 # post)
     \<and> scan_buffer shared m_type (pre @ [1, L, t] @ payload @ [4] @ post)
       = scan_loop shared m_type (Suc (length pre)) ([L, t] @ payload @ [4] @ post) (4 # post)
     \<and> (1 \<notin> set ([L, t] @ payload @ [4] @ post) \<longrightarrow>
          scan_buffer shared m_type (pre @ [1, L, t] @ payload @ [4] @ post)
            = Continue (4 # post))"
proof -
  have step: "scan_step shared m_type (length pre) 1 (pre @ [1, L, t] @ payload @ [4] @ post)
       = Drop (4 # post)"
    unfolding scan_step_candidate [OF len room] using wanted other by (simp add: is_str_def)
  show ?thesis
    using step scan_buffer_first_drop [OF first step] scan_buffer_drop [OF first _ step]
    by blast
qed

theorem C3_wrong_type_witness:
  "scan_step (\<lambda>s. s = ''g'') ''gyro'' 1 1
     ([0x09] @ [0x01, 0x14, 0x65] @ [0x00, 0x00, 0x00, 0x00, 0x00, 0x00, 0x00, 0x00, 0x00, 0x00,
      0x00, 0x00, 0x00, 0x00, 0x00, 0x00] @ [0x04] @ [0x0A, 0x0B])
     = Drop [0x04, 0x0A, 0x0B]
   \<and> scan_buffer (\<lambda>s. s = ''g'') ''gyro''
     ([0x09] @ [0x01, 0x14, 0x65] @ [0x00, 0x00, 0x00, 0x00, 0x00, 0x00, 0x00, 0x00, 0x00, 0x00,
      0x00, 0x00, 0x00, 0x00, 0x00, 0x00] @ [0x04] @ [0x0A, 0x0B])
     = Continue [0x04, 0x0A, 0x0B]"
proof -
  let ?payload = "[0x00, 0x00, 0x00, 0x00, 0x00, 0x00,
      0x00, 0x00, 0x00, 0x00, 0x00, 0x00, 0x00, 0x00, 0x00, 0x00] :: byte list"
  note w = C3_wrong_type [where pre = "[0x09]" and m_type = "''gyro''" and wanted = "''g''"
      and t = "0x65" and L = "0x14" and shared = "\<lambda>s. s = ''g''"
      and payload = ?payload and post = "[0x0A, 0x0B]"]
  have h: "1 \<notin> set [0x09 :: byte]" "message_types ''gyro'' = Some ''g''"
    "chr 0x65 \<noteq> ''g''" "unat (0x14 :: byte) = length ?payload + 4"
    "20 \<le> length ([0x14, 0x65] @ ?payload @ [4] @ [0x0A, 0x0B :: byte])"
    by (simp_all add: message_types_gyro chr_codes)
  have q: "1 \<notin> set ([0x14, 0x65] @ ?payload @ [4] @ [0x0A, 0x0B :: byte])"
    by simp
  from w [OF h] have step: "scan_step (\<lambda>s. s = ''g'') ''gyro'' (length [0x09 :: byte]) 1
      ([0x09] @ [1, 0x14, 0x65] @ ?payload @ [4] @ [0x0A, 0x0B]) = Drop (4 # [0x0A, 0x0B])"
    by (rule conjunct1)
  from w [OF h] q have pass: "scan_buffer (\<lambda>s. s = ''g'') ''gyro''
      ([0x09] @ [1, 0x14, 0x65] @ ?payload @ [4] @ [0x0A, 0x0B]) = Continue (4 # [0x0A, 0x0B])"
    by blast
  show ?thesis using step pass by simp
qed

lemma vmu_loop_bound:
  "iter_count \<le> 5000 \<Longrightarrow>
   (\<exists>tsxyz n. vmu_loop shared reader m_type iter_count data = (Packet tsxyz, n)
       \<and> iter_count < n \<and> n \<le> 5000)
   \<or> (\<exists>e n. vmu_loop shared reader m_type iter_count data = (Failed e, n)
       \<and> iter_count < n \<and> n \<le> 5000)
   \<or> vmu_loop shared reader m_type iter_count data = (NoPacket, 5000)"
proof (induction shared reader m_type iter_count data rule: vmu_loop.induct)
  case (1 shared reader m_type iter_count data)
  show ?case
  proof (cases "iter_count + 1 > 5000")
    case True
    with "1.prems" have "iter_count = 5000" by simp
    then show ?thesis by (simp add: vmu_loop.simps)
  next
    case False
    show ?thesis
    proof (cases "reader iter_count")
      case ReadError
      with False show ?thesis by (simp add: vmu_loop.simps [of shared reader m_type iter_count data])
    next
      case (ReadBytes chunk)
      show ?thesis
      proof (cases "scan_buffer shared m_type (data @ chunk)")
        case (Continue data')
        have eq: "vmu_loop shared reader m_type iter_count data
            = vmu_loop shared reader m_type (iter_count + 1) data'"
          using False ReadBytes Continue
          by (simp add: vmu_loop.simps [of shared reader m_type iter_count data])
        have "iter_count + 1 \<le> 5000" using False by simp
        from "1.IH" [OF False ReadBytes Continue this] show ?thesis
          unfolding eq by auto
      next
        case (Returned tsxyz)
        with False ReadBytes show ?thesis
          by (cases tsxyz) (simp add: vmu_loop.simps [of shared reader m_type iter_count data])
      next
        case (Raised e)
        with False ReadBytes show ?thesis
          by (simp add: vmu_loop.simps [of shared reader m_type iter_count data])
      qed
    qed
  qed
qed

lemma vmu_loop_no_marker:
  "\<forall>n < 5000. \<exists>chunk. reader n = ReadBytes chunk \<and> 1 \<notin> set chunk \<Longrightarrow>
   1 \<notin> set data \<Longrightarrow> iter_count \<le> 5000 \<Longrightarrow>
   vmu_loop shared reader m_type iter_count data = (NoPacket, 5000)"
proof (induction shared reader m_type iter_count data rule: vmu_loop.induct)
  case (1 shared reader m_type iter_count data)
  show ?case
  proof (cases "iter_count + 1 > 5000")
    case True
    with "1.prems" have "iter_count = 5000" by simp
    then show ?thesis by (simp add: vmu_loop.simps)
  next
    case False
    then have "iter_count < 5000" by simp
    with "1.prems"(1) obtain chunk where chunk: "reader iter_count = ReadBytes chunk"
      "1 \<notin> set chunk" by blast
    have free: "1 \<notin> set (data @ chunk)" using chunk(2) "1.prems"(2) by simp
    have pass: "scan_buffer shared m_type (data @ chunk) = Continue (data @ chunk)"
      by (rule scan_buffer_no_marker [OF free])
    have eq: "vmu_loop shared reader m_type iter_count data
        = vmu_loop shared reader m_type (iter_count + 1) (data @ chunk)"
      using False chunk(1) pass
      by (simp add: vmu_loop.simps [of shared reader m_type iter_count data])
    have "iter_count + 1 \<le> 5000" using False by simp
    from "1.IH" [OF False chunk(1) pass "1.prems"(1) free this] show ?thesis
      unfolding eq .
  qed
qed

text \<open>
  \<open>get_vmu_packet\<close> returns on every sequence of transport reads (it is a total
  function, by the termination proof of its loop). It makes at most 5000 reads; it
  returns \<open>None\<close> from the loop only after all 5000 reads; and on a stream in which no
  start marker ever appears, hence no valid frame, it returns \<open>None\<close> after exactly
  5000 reads.
\<close>

lemma get_vmu_packet_terminates:
  "snd (get_vmu_packet shared device reader m_type) \<le> 5000
   \<and> (fst (get_vmu_packet shared (Some dev) reader m_type) = NoPacket
        \<longrightarrow> snd (get_vmu_packet shared (Some dev) reader m_type) = 5000)
   \<and> ((\<forall>n < 5000. \<exists>chunk. reader n = ReadBytes chunk \<and> 1 \<notin> set chunk)
        \<longrightarrow> get_vmu_packet shared (Some dev) reader m_type = (NoPacket, 5000))"
proof (intro conjI impI)
  show "snd (get_vmu_packet shared device reader m_type) \<le> 5000"
    using vmu_loop_bound [of 0 shared reader m_type "[]"]
    by (cases device) (auto simp: get_vmu_packet_def)
  show "snd (get_vmu_packet shared (Some dev) reader m_type) = 5000"
    if "fst (get_vmu_packet shared (Some dev) reader m_type) = NoPacket"
    using that vmu_loop_bound [of 0 shared reader m_type "[]"]
    by (auto simp: get_vmu_packet_def)
  show "get_vmu_packet shared (Some dev) reader m_type = (NoPacket, 5000)"
    if "\<forall>n < 5000. \<exists>chunk. reader n = ReadBytes chunk \<and> 1 \<notin> set chunk"
    using vmu_loop_no_marker [OF that, of "[]" 0 shared m_type]
    by (simp add: get_vmu_packet_def)
qed

lemma get_vmu_packet_terminates_example:
  "get_vmu_packet (\<lambda>s. s = ''g'') (Some ()) (\<lambda>n. ReadBytes [0x00, 0x04, 0x67]) ''gyro''
     = (NoPacket, 5000)"
  using get_vmu_packet_terminates [where reader = "\<lambda>n. ReadBytes [0x00, 0x04, 0x67]"
      and dev = "()" and shared = "\<lambda>s. s = ''g''" and m_type = "''gyro''"
      and device = "Some ()"]
  by simp

section \<open>Properties of the serial reader\<close>

text \<open>
  The model of \<open>get_message\<close> does return where the source does: on a line that holds one
  stray byte and then a gyroscope frame it returns the decoded frame.
\<close>

lemma get_message_example:
  "get_message (\<lambda>s. s = ''g'') (\<lambda>n. if n < 21 then Some ([0x09, 0x01, 0x14, 0x67, 0x00, 0x00, 0x03, 0xE8, 0x3F,
      0xC0, 0x00, 0x00, 0xC0, 0x10, 0x00, 0x00, 0x00, 0x00, 0x00, 0x00, 0x04] ! n) else None) ''gyro''
    = Some (Inr (1000, Float32 0x3FC00000, Float32 0xC0100000, Float32 0))"
  by code_simp

lemma wait_for_start_zero: "wait_for_start (\<lambda>n. Some 0) p = None"
proof -
  have "s \<noteq> (\<lambda>n. Some 0)" if "wait_for_start s p = Some y" for s y
    by (rule wait_for_start.raw_induct [where P = "\<lambda>s p y. s \<noteq> (\<lambda>n. Some 0)", OF _ that])
      (auto split: option.splits if_splits)
  then show ?thesis by (cases "wait_for_start (\<lambda>n. Some 0) p") auto
qed

lemma get_message_loop_zero: "get_message_loop shared (\<lambda>n. Some 0) m_type p = None"
  by (subst get_message_loop.simps) (simp add: wait_for_start_zero)

lemma euler_frames_Some: "euler_frames n \<noteq> None"
  by (simp add: euler_frames_def)

lemma read_n_position:
  "\<forall>i < n. stream (p + i) \<noteq> None \<Longrightarrow> snd (read_n stream p n) = p + n"
proof (induction n arbitrary: p)
  case 0
  then show ?case by simp
next
  case (Suc n)
  from Suc.prems have "stream p \<noteq> None" by force
  then obtain b where b: "stream p = Some b" by auto
  have "\<forall>i < n. stream (p + 1 + i) \<noteq> None"
    using Suc.prems by (metis Suc_less_eq add.assoc plus_1_eq_Suc)
  from Suc.IH [OF this] show ?case
    using b by (cases "read_n stream (p + 1) n") simp
qed

lemma euler_frames_marks:
  "euler_frames (20 * q) = Some 0x01"
  "euler_frames (20 * q + 1) = Some 0x14"
  "euler_frames (20 * q + 1 + 1) = Some 0x65"
  "euler_frames (20 * q + 1 + 2 + 16) = Some 0x04"
proof -
  have m: "(20 * q) mod 20 = 0" "(20 * q + 1) mod 20 = 1" "(20 * q + 1 + 1) mod 20 = 2"
    "(20 * q + 1 + 2 + 16) mod 20 = 19"
    by presburger+
  show "euler_frames (20 * q) = Some 0x01" unfolding euler_frames_def m(1) by simp
  show "euler_frames (20 * q + 1) = Some 0x14" unfolding euler_frames_def m(2) by simp
  show "euler_frames (20 * q + 1 + 1) = Some 0x65" unfolding euler_frames_def m(3) by simp
  show "euler_frames (20 * q + 1 + 2 + 16) = Some 0x04" unfolding euler_frames_def m(4) by simp
qed

lemma wait_for_start_euler:
  "wait_for_start euler_frames (20 * q) = Some (Inr (20 * q + 1))"
  by (subst wait_for_start.simps) (simp only: euler_frames_marks option.case, simp)

lemma get_message_loop_euler:
  "get_message_loop shared euler_frames ''gyro'' (20 * q) = None"
proof -
  have "\<not> (s = euler_frames \<and> m = ''gyro'' \<and> 20 dvd p)"
    if "get_message_loop sh s m p = Some y" for sh s m p y
  proof (rule get_message_loop.raw_induct
      [where P = "\<lambda>sh s m p y. \<not> (s = euler_frames \<and> m = ''gyro'' \<and> 20 dvd p)", OF _ that])
    fix f :: "(string \<Rightarrow> bool) \<Rightarrow> serial \<Rightarrow> string \<Rightarrow> nat \<Rightarrow> (error + sample) option"
      and shared stream m_type p y
    assume IH: "\<And>sh s m p y. f sh s m p = Some y
        \<Longrightarrow> \<not> (s = euler_frames \<and> m = ''gyro'' \<and> 20 dvd p)"
    assume body: "Option.bind (wait_for_start stream p) (\<lambda>r.
       case r of
         Inl e \<Rightarrow> Some (Inl e)
       | Inr p1 \<Rightarrow>
           (case stream p1 of
              None \<Rightarrow> Some (Inl IndexError)
            | Some b1 \<Rightarrow>
           (case stream (p1 + 1) of
              None \<Rightarrow> Some (Inl IndexError)
            | Some b2 \<Rightarrow>
           (case read_n stream (p1 + 2) (nat (uint b1 - 4)) of
              (message, p3) \<Rightarrow>
           (case stream p3 of
              None \<Rightarrow> Some (Inl IndexError)
            | Some message_end \<Rightarrow>
                if message_end \<noteq> 4 then f shared stream m_type (p3 + 1)
                else
                  (case message_types m_type of
                     None \<Rightarrow> Some (Inl KeyError)
                   | Some wanted \<Rightarrow>
                       if \<not> is_str shared (chr b2) wanted
                       then f shared stream m_type (p3 + 1)
                       else
                         (case unpack_motion message of
                            Inl e \<Rightarrow> Some (Inl e)
                          | Inr tsxyz \<Rightarrow> Some (Inr tsxyz)))))))) = Some y"
    show "\<not> (stream = euler_frames \<and> m_type = ''gyro'' \<and> 20 dvd p)"
    proof
      assume a: "stream = euler_frames \<and> m_type = ''gyro'' \<and> 20 dvd p"
      then obtain q where p: "p = 20 * q" by (auto simp: dvd_def)
      have s: "stream = euler_frames" and m: "m_type = ''gyro''" using a by simp_all
      have "snd (read_n euler_frames (20 * q + 1 + 2) 16) = 20 * q + 1 + 2 + 16"
        by (rule read_n_position) (simp add: euler_frames_Some)
      then obtain message where
        rd: "read_n euler_frames (20 * q + 1 + 2) 16 = (message, 20 * q + 1 + 2 + 16)"
        by (cases "read_n euler_frames (20 * q + 1 + 2) 16") simp
      have size: "nat (uint (0x14 :: byte) - 4) = 16" by simp
      have ty: "(\<not> is_str shared (chr 0x65) ''g'') = True"
        by (simp add: chr_codes is_str_def)
      have four: "((4 :: byte) \<noteq> 4) = False" by simp
      have "f shared euler_frames ''gyro'' (20 * q + 1 + 2 + 16 + 1) = Some y"
        using body
        by (simp only: s m p wait_for_start_euler Option.bind.simps sum.case option.case
            euler_frames_marks size rd prod.case four ty message_types_gyro if_True if_False)
      from IH [OF this] show False by simp
    qed
  qed
  note never = this
  show ?thesis
  proof (cases "get_message_loop shared euler_frames ''gyro'' (20 * q)")
    case None
    then show ?thesis .
  next
    case (Some y)
    from never [OF Some] show ?thesis by simp
  qed
qed

text \<open>
  Claim C9: every call of the frame-scanning loop ends, after at most 5000
  iterations, and gives a timeout indication when no wanted frame was found.
  \<open>get_vmu_packet\<close> does so (lemma \<open>get_vmu_packet_terminates\<close>). \<open>get_message\<close>, the
  scanning loop of the serial driver, has no such cap, and there are lines on which
  it never returns: a device that streams only euler frames while a gyroscope
  message is asked for, and a line that never carries the start marker.
\<close>

theorem C9_get_message_never_returns:
  "get_message shared euler_frames ''gyro'' = None
   \<and> get_message shared (\<lambda>n. Some 0) ''gyro'' = None"
  using get_message_loop_euler [of shared 0]
  by (simp add: get_message_def get_message_loop_zero message_types_gyro)

end
